theory Spec2Isabelle
  imports Complex_Main "HOL-Library.Word" "HOL-Library.Multiset"
begin

section \<open>The expression tree of package expr\<close>

text \<open>
  Go strings are byte sequences and so are HOL strings. Logging calls (\<open>u.Debugf\<close>,
  \<open>u.Infof\<close>, \<open>u.Warnf\<close>) do not change any result. The warnings of
  \<open>DataSources.Get\<close> and of \<open>VisitSelect\<close> are kept, as a returned list of log
  entries; every other logging call is left out.
\<close>

subsection \<open>Types of the packages lex, value and reflect that the nodes use\<close>

text \<open>
  Modelled from the spec: package \<open>lex\<close> is not among the sources. The token types
  are the ones builder.go names (the logical operators, the arithmetic operators, modulus,
  negation); every other token type of the lexer is \<open>TokenOther k\<close>.
\<close>

datatype TokenType =
    TokenLogicAnd | TokenLogicOr
  | TokenMultiply | TokenMinus | TokenAdd | TokenDivide
  | TokenModulus
  | TokenNegate
  | TokenOther nat

text \<open>
  Modelled from the spec: a \<open>lex.Token\<close>, with the fields builder.go reads: its
  type \<open>T\<close>, its text \<open>V\<close>, its byte offset \<open>Pos\<close> and the quote byte
  \<open>Quote\<close> of an identity (the selectors carry the prefix \<open>tok_\<close>).
\<close>

record Token =
  tok_T :: TokenType
  tok_V :: string
  tok_Pos :: int
  tok_Quote :: char

text \<open>
  Modelled from the spec: \<open>value.ValueType\<close> of package \<open>value\<close>, which is not
  among the sources; the five types that \<open>ValueTypeFromNode\<close> returns, and
  \<open>OtherValueType k\<close> for the rest.
\<close>

datatype ValueType =
    UnknownType | StringType | NumberType | BoolType | IntType
  | OtherValueType nat

text \<open>
  A \<open>reflect.Value\<close> is observed by builder.go through \<open>Kind()\<close> only; the model
  keeps the kind. The kinds are those of the package's \<open>...Rv\<close> variables
  (\<open>nilRv\<close> has kind \<open>Invalid\<close>), written with the prefix \<open>k\<close>.
\<close>

datatype Kind =
    kInvalid | kBool | kInt32 | kInt64 | kFloat64 | kString | kSlice | kMap | kStruct

text \<open>
  \<open>Func\<close>: the description of a native function. The field \<open>F\<close> (the Go function
  itself) is never read by the code modelled here and is left out.
\<close>

record Func =
  func_Name :: string
  Args :: "Kind list"
  VariadicArgs :: bool
  Return :: Kind
  ReturnValueType :: ValueType

record IdentityNode =
  id_Pos :: int
  Quote :: char
  id_Text :: string
  left :: string
  right :: string

text \<open>
  \<open>NumberNode\<close>. \<open>Int64\<close> is a 64-bit machine integer. The type \<open>'f\<close> stands
  for \<open>float64\<close>: its values and operations belong to the Go runtime and are
  parameters of the model (see \<open>go_numbers\<close> below).
\<close>

record 'f NumberNode =
  num_Pos :: int
  IsInt :: bool
  IsFloat :: bool
  Int64 :: "64 word"
  Float64 :: 'f
  num_Text :: string

text \<open>
  A value of the interface type \<open>Node\<close>: the nil interface value, or a pointer to one of
  the node structs. Constructor arguments follow the struct fields in order:
  \<open>FuncNode Pos Name F Args\<close>, \<open>StringNode Pos Text\<close>, \<open>NullNode Pos\<close>,
  \<open>BinaryNode Pos Paren Args[0] Args[1] Operator\<close>,
  \<open>TriNode Pos Args[0] Args[1] Args[2] Operator\<close>, \<open>UnaryNode Pos Arg Operator\<close>,
  \<open>MultiArgNode Pos Args Operator\<close>.
\<close>

datatype 'f Node =
    NilNode
  | FuncNode int string Func "'f Node list"
  | IdentNode IdentityNode
  | StringNode int string
  | NullNode int
  | NumberNode "'f NumberNode"
  | BinaryNode int bool "'f Node" "'f Node" Token
  | TriNode int "'f Node" "'f Node" "'f Node" Token
  | UnaryNode int "'f Node" Token
  | MultiArgNode int "'f Node list" Token

subsection \<open>ValueTypeFromNode\<close>

text \<open>
  The type switch of \<open>ValueTypeFromNode\<close>, case by case. The case \<open>*FuncNode\<close> is
  empty (Go does not fall through), so it reaches the final \<open>return value.UnknownType\<close>,
  as do the default cases, which only log a warning.
\<close>

fun ValueTypeFromNode :: "'f Node \<Rightarrow> ValueType" where
  "ValueTypeFromNode (FuncNode p name f args) = UnknownType"
| "ValueTypeFromNode (StringNode p txt) = StringType"
| "ValueTypeFromNode (IdentNode i) = StringType"
| "ValueTypeFromNode (NumberNode n) = NumberType"
| "ValueTypeFromNode (BinaryNode p paren a0 a1 op) =
     (if tok_T op = TokenLogicAnd \<or> tok_T op = TokenLogicOr then BoolType
      else if tok_T op = TokenMultiply \<or> tok_T op = TokenMinus \<or> tok_T op = TokenAdd \<or> tok_T op = TokenDivide
        then NumberType
      else if tok_T op = TokenModulus then IntType
      else UnknownType)"
| "ValueTypeFromNode NilNode = UnknownType"
| "ValueTypeFromNode (NullNode p) = UnknownType"
| "ValueTypeFromNode (TriNode p a0 a1 a2 op) = UnknownType"
| "ValueTypeFromNode (UnaryNode p a op) = UnknownType"
| "ValueTypeFromNode (MultiArgNode p args op) = UnknownType"

subsection \<open>IdentityNode.LeftRight\<close>

text \<open>
  \<open>strings.Split(s, sep)\<close> for a separator of one byte: the pieces of \<open>s\<close> between
  the occurrences of the separator, one more piece than there are occurrences.
\<close>

fun Split :: "string \<Rightarrow> char \<Rightarrow> string list" where
  "Split [] c = [[]]"
| "Split (x # xs) c =
     (if x = c then [] # Split xs c
      else (case Split xs c of [] \<Rightarrow> [[x]] | y # ys \<Rightarrow> (x # y) # ys))"

definition NewIdentityNode :: "Token \<Rightarrow> IdentityNode" where
  "NewIdentityNode tok =
     \<lparr>id_Pos = tok_Pos tok, Quote = tok_Quote tok, id_Text = tok_V tok, left = [], right = []\<rparr>"

text \<open>
  \<open>LeftRight\<close> writes the fields \<open>left\<close> and \<open>right\<close> of its receiver: the model
  returns the three results together with the node after the call.
\<close>

definition LeftRight :: "IdentityNode \<Rightarrow> (string \<times> string \<times> bool) \<times> IdentityNode" where
  "LeftRight m =
     (if left m = [] then
        (let vals = Split (id_Text m) CHR ''.'' in
         if length vals = 1 then
           (let m' = m\<lparr>left := id_Text m\<rparr> in ((left m', right m', right m' \<noteq> []), m'))
         else if length vals = 2 then
           (let m' = m\<lparr>left := vals ! 0, right := vals ! 1\<rparr>
            in ((left m', right m', right m' \<noteq> []), m'))
         else ((id_Text m, [], False), m))
      else ((left m, right m, right m \<noteq> []), m))"

subsection \<open>Errors\<close>

text \<open>
  The errors that the modelled functions make, one constructor for each
  \<open>fmt.Errorf\<close> of the sources, with the arguments of its message:
  \<^item> \<open>MustImplementScanner\<close>: "Must Implement Scanner";
  \<^item> \<open>NotCurrentlyImplemented\<close>: "3 or more Table/Join not currently implemented";
  \<^item> \<open>ErrNotImplemented\<close>: the variable \<open>expr.ErrNotImplemented\<close>, "QLB: Not implemented";
  \<^item> \<open>IllegalNumberSyntax txt\<close>: "illegal number syntax: %q";
  \<^item> \<open>NotEnoughArguments name supplied declared\<close>:
    "parse: not enough arguments for %s  supplied:%d  f.Args:%v";
  \<^item> \<open>TooManyArguments name want got\<close>: "parse: too many arguments for %s want:%v got:%v   %#v"
    (the message prints the argument nodes as well);
  \<^item> \<open>UnaryTypeError\<close>: "parse: type error in expected? got %v", made for a nil operand;
  \<^item> \<open>UnknownSource name\<close>: "datasource: unknown source %q (forgotten import?)";
  \<^item> \<open>ExternalError k\<close>: an error made by code outside the sources (a backend's
    \<open>Open\<close>, \<open>NewSourceJoin\<close>).
\<close>

datatype error =
    MustImplementScanner
  | NotCurrentlyImplemented
  | ErrNotImplemented
  | IllegalNumberSyntax string
  | NotEnoughArguments string nat nat
  | TooManyArguments string nat nat
  | UnaryTypeError
  | UnknownSource string
  | ExternalError nat

subsection \<open>Check\<close>

text \<open>
  \<open>Type()\<close> of the interface \<open>NodeValueType\<close>, which every node struct implements;
  the result is observed through its kind. \<open>BinaryNode.Type\<close> asks its first operand
  when that one is not nil.
\<close>

fun Type_of :: "'f Node \<Rightarrow> Kind" where
  "Type_of (FuncNode p name f args) = Return f"
| "Type_of (NumberNode n) = kFloat64"
| "Type_of (StringNode p txt) = kString"
| "Type_of (IdentNode i) = kString"
| "Type_of (NullNode p) = kInvalid"
| "Type_of (BinaryNode p paren a0 a1 op) = (if a0 = NilNode then kBool else Type_of a0)"
| "Type_of (TriNode p a0 a1 a2 op) = kBool"
| "Type_of (UnaryNode p a op) = kBool"
| "Type_of (MultiArgNode p args op) = kBool"
| "Type_of NilNode = kInvalid"

text \<open>
  \<open>Check\<close> returns a Go \<open>error\<close>: \<open>None\<close> is nil.

  \<open>FuncNode.Check\<close> first compares the number of arguments with the declared one, then
  walks the arguments in order (\<open>Check_args\<close>). In the loop, the type switch
  \<open>switch a.(type)\<close> has the arms \<open>case Node\<close> and \<open>case value.Value\<close>, tried in
  this order. An argument is held in a variable of the interface type \<open>Node\<close>, so the
  dynamic type of every argument that is not nil implements \<open>Node\<close> and the first arm
  takes it: \<open>a.Check()\<close> is called and its error returned. A nil argument matches no
  arm. The second arm, which compares \<open>c.F.Args[i].Kind()\<close> with the kind of the
  argument's \<open>Type()\<close>, is therefore never entered, and is not in the model.

  \<open>UnaryNode.Check\<close> checks its operand, and makes an error when the operand is nil.
  The other nodes return nil. Neither method calls \<open>Check\<close> on a nil node; the equation
  for \<open>NilNode\<close> only makes the function total.
\<close>

fun Check :: "'f Node \<Rightarrow> error option"
  and Check_args :: "'f Node list \<Rightarrow> error option" where
  "Check (FuncNode p name f args) =
     (if length args < length (Args f) \<and> \<not> VariadicArgs f then
        Some (NotEnoughArguments name (length args) (length (Args f)))
      else if length args \<ge> length (Args f) \<and> VariadicArgs f then
        Check_args args
      else if length args > length (Args f) then
        Some (TooManyArguments name (length (Args f)) (length args))
      else Check_args args)"
| "Check (UnaryNode p a op) = (if a = NilNode then Some UnaryTypeError else Check a)"
| "Check NilNode = None"
| "Check (IdentNode i) = None"
| "Check (StringNode p txt) = None"
| "Check (NullNode p) = None"
| "Check (NumberNode n) = None"
| "Check (BinaryNode p paren a0 a1 op) = None"
| "Check (TriNode p a0 a1 a2 op) = None"
| "Check (MultiArgNode p args op) = None"
| "Check_args [] = None"
| "Check_args (a # as) =
     (if a = NilNode then Check_args as
      else (case Check a of Some err \<Rightarrow> Some err | None \<Rightarrow> Check_args as))"

subsection \<open>NewNumber\<close>

text \<open>
  What \<open>NewNumber\<close> takes from the Go library and runtime, as parameters:
  \<^item> \<open>ParseInt txt\<close> is \<open>strconv.ParseInt(txt, 0, 64)\<close>, \<open>Some u\<close> when the error
    is nil;
  \<^item> \<open>ParseFloat txt\<close> is \<open>strconv.ParseFloat(txt, 64)\<close>, likewise;
  \<^item> \<open>float64_of_int64\<close> and \<open>int64_of_float64\<close> are the conversions \<open>float64(i)\<close>
    and \<open>int64(f)\<close>;
  \<^item> \<open>float64_eq\<close> is \<open>==\<close> on \<open>float64\<close>;
  \<^item> \<open>float64_zero\<close> is the zero value of a \<open>float64\<close> field.
\<close>

record 'f go_numbers =
  ParseInt :: "string \<Rightarrow> 64 word option"
  ParseFloat :: "string \<Rightarrow> 'f option"
  float64_of_int64 :: "64 word \<Rightarrow> 'f"
  int64_of_float64 :: "'f \<Rightarrow> 64 word"
  float64_eq :: "'f \<Rightarrow> 'f \<Rightarrow> bool"
  float64_zero :: 'f

text \<open>
  The test of the back-promotion, \<open>float64(int64(f)) == f\<close>: the float is the
  float of its own integer conversion.
\<close>

definition is_whole :: "'f go_numbers \<Rightarrow> 'f \<Rightarrow> bool" where
  "is_whole go f = float64_eq go (float64_of_int64 go (int64_of_float64 go f)) f"

definition NewNumber :: "'f go_numbers \<Rightarrow> int \<Rightarrow> string \<Rightarrow> error + 'f NumberNode" where
  "NewNumber go pos txt =
     (let n0 = \<lparr>num_Pos = pos, IsInt = False, IsFloat = False, Int64 = 0,
                Float64 = float64_zero go, num_Text = txt\<rparr>;
          n1 = (case ParseInt go txt of
                  Some u \<Rightarrow> n0\<lparr>IsInt := True, Int64 := u\<rparr>
                | None \<Rightarrow> n0);
          n2 = (if IsInt n1 then
                  n1\<lparr>IsFloat := True, Float64 := float64_of_int64 go (Int64 n1)\<rparr>
                else
                  (case ParseFloat go txt of
                     Some f \<Rightarrow>
                       (let n' = n1\<lparr>IsFloat := True, Float64 := f\<rparr> in
                        if \<not> IsInt n' \<and> is_whole go f
                        then n'\<lparr>IsInt := True, Int64 := int64_of_float64 go f\<rparr>
                        else n')
                   | None \<Rightarrow> n1))
      in if \<not> IsInt n2 \<and> \<not> IsFloat n2 then Inl (IllegalNumberSyntax txt) else Inr n2)"

subsection \<open>String, StringAST and FindIdentityName\<close>

text \<open>
  A call that panics at run time returns \<open>Inl\<close> of the panic. The String methods
  can panic in two ways: a method is called on a nil \<open>Node\<close>, or
  \<open>MultiArgNode.StringAST\<close> makes a slice of length \<open>len(m.Args)-1\<close> for an empty
  argument list. Only the nil interface value is modelled as nil; a nil pointer of a
  node type stored in a \<open>Node\<close> is not. The two panics of \<open>Register\<close> (section
  on the registry) are values of the same type.
\<close>

datatype panic =
    NilDereference
  | MakesliceLenOutOfRange
  | RegisterDriverNil
  | RegisterCalledTwice string

text \<open>
  What the String methods take from package \<open>fmt\<close>, as parameters:
  \<open>fmt_q s\<close> is \<open>fmt.Sprintf("%q", s)\<close>, and \<open>fmt_s_panic pn\<close> is what the verb
  \<open>%s\<close> prints for an operand whose \<open>String\<close> method panics with \<open>pn\<close>
  (package \<open>fmt\<close> recovers such a panic and prints a note in its place).
\<close>

record go_fmt =
  fmt_q :: "string \<Rightarrow> string"
  fmt_s_panic :: "panic \<Rightarrow> string"

text \<open>
  \<open>strings.ToLower\<close> belongs to the Go library (it maps every Unicode upper-case letter
  and rewrites invalid UTF-8) and is a parameter of the functions that call it:
  \<open>ToLower gs s\<close> is \<open>strings.ToLower(s)\<close>.
\<close>

record go_strings =
  ToLower :: "string \<Rightarrow> string"

text \<open>\<open>strings.Join(elems, sep)\<close>.\<close>

fun Join :: "string list \<Rightarrow> string \<Rightarrow> string" where
  "Join [] sep = []"
| "Join [x] sep = x"
| "Join (x # y # ys) sep = x @ sep @ Join (y # ys) sep"

text \<open>
  The conversion \<open>string(b)\<close> of a byte: the UTF-8 encoding of the code point \<open>b\<close>,
  one byte below 128 and two bytes from there on.
\<close>

definition string_of_byte :: "char \<Rightarrow> string" where
  "string_of_byte b =
     (let n = (of_char b :: nat) in
      if n < 128 then [b] else [char_of (192 + n div 64), char_of (128 + n mod 64)])"

text \<open>
  The results of calls made one after the other: the first panic ends the sequence.
\<close>

fun in_order :: "(panic + string) list \<Rightarrow> panic + string list" where
  "in_order [] = Inr []"
| "in_order (Inl pn # rs) = Inl pn"
| "in_order (Inr s # rs) = (case in_order rs of Inl pn \<Rightarrow> Inl pn | Inr ss \<Rightarrow> Inr (s # ss))"

text \<open>
  \<open>String()\<close> and \<open>StringAST()\<close> of every node. A method called on the nil node
  panics. \<open>fmt.Sprintf\<close> evaluates its operands from left to right before it formats.
  \<open>BinaryNode.String\<close>, \<open>TriNode.String\<close> and \<open>MultiArgNode.String\<close> return
  \<open>m.StringAST()\<close>. \<open>UnaryNode.String\<close> hands its operand to the verb \<open>%s\<close>,
  which prints \<open>%!s(<nil>)\<close> for nil and calls the operand's \<open>String\<close> method
  otherwise.
\<close>

fun String :: "go_fmt \<Rightarrow> 'f Node \<Rightarrow> panic + string"
  and StringAST :: "go_fmt \<Rightarrow> 'f Node \<Rightarrow> panic + string" where
  "String fm NilNode = Inl NilDereference"
| "String fm (FuncNode p name f args) =
     (case in_order (map (String fm) args) of
        Inl pn \<Rightarrow> Inl pn
      | Inr ss \<Rightarrow> Inr (name @ ''('' @ Join ss '', '' @ '')''))"
| "String fm (IdentNode i) = Inr (id_Text i)"
| "String fm (StringNode p txt) = Inr txt"
| "String fm (NullNode p) = Inr ''NULL''"
| "String fm (NumberNode n) = Inr (num_Text n)"
| "String fm (BinaryNode p paren a0 a1 op) =
     (case StringAST fm a0 of
        Inl pn \<Rightarrow> Inl pn
      | Inr s0 \<Rightarrow>
          (case StringAST fm a1 of
             Inl pn \<Rightarrow> Inl pn
           | Inr s1 \<Rightarrow>
               Inr (if paren then ''('' @ s0 @ '' '' @ tok_V op @ '' '' @ s1 @ '')''
                    else s0 @ '' '' @ tok_V op @ '' '' @ s1)))"
| "String fm (TriNode p a0 a1 a2 op) =
     (case String fm a0 of
        Inl pn \<Rightarrow> Inl pn
      | Inr s0 \<Rightarrow>
          (case String fm a1 of
             Inl pn \<Rightarrow> Inl pn
           | Inr s1 \<Rightarrow>
               (case StringAST fm a2 of
                  Inl pn \<Rightarrow> Inl pn
                | Inr s2 \<Rightarrow> Inr (s0 @ '' BETWEEN '' @ s1 @ '' AND '' @ s2))))"
| "String fm (UnaryNode p a op) =
     Inr (tok_V op @
          (if a = NilNode then ''%!s(<nil>)''
           else (case String fm a of Inl pn \<Rightarrow> fmt_s_panic fm pn | Inr s \<Rightarrow> s)))"
| "String fm (MultiArgNode p args op) =
     (case args of
        [] \<Rightarrow> Inl MakesliceLenOutOfRange
      | a0 # rest \<Rightarrow>
          (case in_order (map (StringAST fm) rest) of
             Inl pn \<Rightarrow> Inl pn
           | Inr ss \<Rightarrow>
               (case StringAST fm a0 of
                  Inl pn \<Rightarrow> Inl pn
                | Inr s0 \<Rightarrow> Inr (s0 @ '' '' @ tok_V op @ '' ('' @ Join ss '','' @ '')''))))"
| "StringAST fm NilNode = Inl NilDereference"
| "StringAST fm (FuncNode p name f args) =
     (case in_order (map (StringAST fm) args) of
        Inl pn \<Rightarrow> Inl pn
      | Inr ss \<Rightarrow> Inr (name @ ''('' @ Join ss '', '' @ '')''))"
| "StringAST fm (IdentNode i) =
     Inr (if of_char (Quote i) = (0::nat) then id_Text i
          else string_of_byte (Quote i) @ id_Text i @ string_of_byte (Quote i))"
| "StringAST fm (StringNode p txt) = Inr (fmt_q fm txt)"
| "StringAST fm (NullNode p) = Inr ''NULL''"
| "StringAST fm (NumberNode n) = Inr (num_Text n)"
| "StringAST fm (BinaryNode p paren a0 a1 op) =
     (case StringAST fm a0 of
        Inl pn \<Rightarrow> Inl pn
      | Inr s0 \<Rightarrow>
          (case StringAST fm a1 of
             Inl pn \<Rightarrow> Inl pn
           | Inr s1 \<Rightarrow>
               Inr (if paren then ''('' @ s0 @ '' '' @ tok_V op @ '' '' @ s1 @ '')''
                    else s0 @ '' '' @ tok_V op @ '' '' @ s1)))"
| "StringAST fm (TriNode p a0 a1 a2 op) =
     (case String fm a0 of
        Inl pn \<Rightarrow> Inl pn
      | Inr s0 \<Rightarrow>
          (case String fm a1 of
             Inl pn \<Rightarrow> Inl pn
           | Inr s1 \<Rightarrow>
               (case StringAST fm a2 of
                  Inl pn \<Rightarrow> Inl pn
                | Inr s2 \<Rightarrow> Inr (s0 @ '' BETWEEN '' @ s1 @ '' AND '' @ s2))))"
| "StringAST fm (UnaryNode p a op) =
     (case StringAST fm a of
        Inl pn \<Rightarrow> Inl pn
      | Inr s \<Rightarrow>
          Inr (if tok_T op = TokenNegate then ''NOT '' @ s
               else tok_V op @ ''('' @ s @ '')''))"
| "StringAST fm (MultiArgNode p args op) =
     (case args of
        [] \<Rightarrow> Inl MakesliceLenOutOfRange
      | a0 # rest \<Rightarrow>
          (case in_order (map (StringAST fm) rest) of
             Inl pn \<Rightarrow> Inl pn
           | Inr ss \<Rightarrow>
               (case StringAST fm a0 of
                  Inl pn \<Rightarrow> Inl pn
                | Inr s0 \<Rightarrow> Inr (s0 @ '' '' @ tok_V op @ '' ('' @ Join ss '','' @ '')''))))"

text \<open>
  \<open>FindIdentityName\<close>. Each \<open>for ... range n.Args\<close> returns in its first round,
  so only the first argument is visited; a \<open>FuncNode\<close> without arguments, and every
  node that is neither an identity, a binary node nor a function call, gives the empty
  string. The test \<open>depth > 10\<close> stands in the case \<open>*FuncNode\<close> only. In the
  case \<open>*BinaryNode\<close> the prefix is \<open>strings.ToLower(arg.String())\<close>, evaluated
  before the recursive call. The depth is a Go \<open>int\<close>, a signed machine integer of 64
  bits (on a 64-bit platform): \<open>depth+1\<close> wraps around, and \<open>depth > 10\<close> compares
  the signed values.
\<close>

fun FindIdentityName ::
  "go_strings \<Rightarrow> go_fmt \<Rightarrow> 64 word \<Rightarrow> 'f Node \<Rightarrow> string \<Rightarrow> panic + string" where
  "FindIdentityName gs fm depth (IdentNode n) prefix =
     Inr (if prefix = [] then id_Text n else prefix @ ''_'' @ id_Text n)"
| "FindIdentityName gs fm depth (BinaryNode p paren a0 a1 op) prefix =
     (case String fm a0 of
        Inl pn \<Rightarrow> Inl pn
      | Inr s \<Rightarrow> FindIdentityName gs fm (depth + 1) a0 (ToLower gs s))"
| "FindIdentityName gs fm depth (FuncNode p name f args) prefix =
     (if 10 < sint depth then Inr []
      else (case args of
              [] \<Rightarrow> Inr []
            | arg # rest \<Rightarrow>
                FindIdentityName gs fm (depth + 1) arg (ToLower gs (func_Name f))))"
| "FindIdentityName gs fm depth n prefix = Inr []"

section \<open>The registry of package datasource\<close>

text \<open>The warnings that \<open>DataSources.Get\<close> and \<open>VisitSelect\<close> log.\<close>

datatype log =
    Warn_only_one_source
  | Warn_no_source_type
  | Warn_table_names_unique string
  | Warn_no_table nat nat
  | Warn_could_not_find_table string
  | Warn_unsupported_subquery
  | Warn_unsupported_where_type

text \<open>
  A connection (an interface value of type \<open>SourceConn\<close> that is not nil): its identity,
  and whether its dynamic type implements \<open>Scanner\<close>. A connection that may be nil is
  a \<open>SourceConn option\<close>.
\<close>

record SourceConn =
  conn_id :: nat
  conn_Scanner :: bool

text \<open>
  A backend (an interface value of type \<open>DataSource\<close> that is not nil): its identity,
  what its methods \<open>Tables\<close> and \<open>Open\<close> return, and whether its dynamic type
  implements \<open>Scanner\<close> and \<open>Seeker\<close>.
\<close>

record DataSource =
  ds_id :: nat
  Tables :: "string list"
  Open :: "string \<Rightarrow> error + SourceConn option"
  ds_Scanner :: bool
  ds_Seeker :: bool

record Features =
  Scan :: bool
  Seek :: bool
  feat_Where :: bool
  GroupBy :: bool
  Sort :: bool
  Aggregations :: bool

record DataSourceFeatures =
  dsf_Features :: Features
  dsf_DataSource :: DataSource

text \<open>
  The two maps of \<open>DataSources\<close> are association lists with distinct keys: a new key is
  put at the end, so that \<open>sources\<close> lists the backends in the order of registration,
  \<open>length\<close> is Go's \<open>len\<close> and \<open>map_of\<close> is the lookup.
\<close>

record DataSources =
  sources :: "(string \<times> DataSource) list"
  tableSources :: "(string \<times> DataSource) list"

definition newDataSources :: DataSources where
  "newDataSources = \<lparr>sources = [], tableSources = []\<rparr>"

definition NewFeaturedSource :: "DataSource \<Rightarrow> DataSourceFeatures" where
  "NewFeaturedSource src =
     \<lparr>dsf_Features = \<lparr>Scan = ds_Scanner src, Seek = ds_Seeker src, feat_Where = False,
                       GroupBy = False, Sort = False, Aggregations = False\<rparr>,
      dsf_DataSource = src\<rparr>"

text \<open>
  The loop of \<open>Get\<close> that fills \<open>tableSources\<close>: for every backend, for every table
  of it, a table that is already in the map is left alone and a warning logged, and a
  new table is stored with the backend. The accumulator is the map and the log.
\<close>

fun add_tables ::
  "DataSource \<Rightarrow> string list \<Rightarrow> (string \<times> DataSource) list \<times> log list
     \<Rightarrow> (string \<times> DataSource) list \<times> log list" where
  "add_tables src [] acc = acc"
| "add_tables src (tbl # tbls) (ts, lg) =
     (if map_of ts tbl \<noteq> None
      then add_tables src tbls (ts, lg @ [Warn_table_names_unique tbl])
      else add_tables src tbls (ts @ [(tbl, src)], lg))"

fun index_sources ::
  "(string \<times> DataSource) list \<Rightarrow> (string \<times> DataSource) list \<times> log list
     \<Rightarrow> (string \<times> DataSource) list \<times> log list" where
  "index_sources [] acc = acc"
| "index_sources ((name, src) # rest) acc =
     index_sources rest (add_tables src (Tables src) acc)"

text \<open>
  \<open>DataSources.Get\<close>. Go does not fix the order in which \<open>range\<close> visits a map; the
  order of the loop over \<open>m.sources\<close> that fills \<open>tableSources\<close> is the argument
  \<open>ord\<close>, a permutation of \<open>sources m\<close>. The result is the pointer returned
  (\<open>None\<close> is nil), the registry after the call, and the warnings logged.
\<close>

definition Get ::
  "go_strings \<Rightarrow> DataSources \<Rightarrow> (string \<times> DataSource) list \<Rightarrow> string
     \<Rightarrow> DataSourceFeatures option \<times> DataSources \<times> log list" where
  "Get gs m ord sourceType =
     (case map_of (sources m) (ToLower gs sourceType) of
        Some source \<Rightarrow> (Some (NewFeaturedSource source), m, [])
      | None \<Rightarrow>
          (case sources m of
             [(name, src)] \<Rightarrow> (Some (NewFeaturedSource src), m, [Warn_only_one_source])
           | _ \<Rightarrow>
               (let lg1 = (if sourceType = [] then [Warn_no_source_type] else []);
                    (ts, lg2) = (if length (tableSources m) = 0
                                 then index_sources ord (tableSources m, [])
                                 else (tableSources m, []));
                    m' = m\<lparr>tableSources := ts\<rparr>
                in (case map_of ts sourceType of
                      Some src \<Rightarrow> (Some (NewFeaturedSource src), m', lg1 @ lg2)
                    | None \<Rightarrow>
                        (None, m',
                         lg1 @ lg2 @ [Warn_no_table (length (sources m)) (length ts),
                                      Warn_could_not_find_table sourceType])))))"

text \<open>
  \<open>Register\<close> and \<open>OpenConn\<close> work on the package variable \<open>sources\<close>: the
  registry is an argument, and \<open>Register\<close> returns the registry after the call, or the
  panic. The source to register may be nil (\<open>None\<close>).
\<close>

definition Register ::
  "go_strings \<Rightarrow> string \<Rightarrow> DataSource option \<Rightarrow> DataSources \<Rightarrow> panic + DataSources" where
  "Register gs name source m =
     (case source of
        None \<Rightarrow> Inl RegisterDriverNil
      | Some src \<Rightarrow>
          (let name' = ToLower gs name in
           if map_of (sources m) name' \<noteq> None then Inl (RegisterCalledTwice name')
           else Inr (m\<lparr>sources := sources m @ [(name', src)]\<rparr>)))"

definition OpenConn :: "DataSources \<Rightarrow> string \<Rightarrow> string \<Rightarrow> error + SourceConn option" where
  "OpenConn m sourceName sourceConfig =
     (case map_of (sources m) sourceName of
        None \<Rightarrow> Inl (UnknownSource sourceName)
      | Some sourcei \<Rightarrow>
          (case Open sourcei sourceConfig of
             Inl err \<Rightarrow> Inl err
           | Inr source \<Rightarrow> Inr source))"

text \<open>
  The registries that the package can hold: the variable \<open>sources\<close> starts as
  \<open>newDataSources()\<close>, and only \<open>Register\<close> and \<open>Get\<close> write to it.
\<close>

inductive reachable :: "go_strings \<Rightarrow> DataSources \<Rightarrow> bool" where
  reachable_new: "reachable gs newDataSources"
| reachable_Register:
    "reachable gs m \<Longrightarrow> Register gs name source m = Inr m' \<Longrightarrow> reachable gs m'"
| reachable_Get:
    "reachable gs m \<Longrightarrow> Get gs m ord sourceType = (r, m', lg) \<Longrightarrow> reachable gs m'"

section \<open>The planner of package exec\<close>

text \<open>
  Modelled from the spec: the statement types of package \<open>expr\<close> (\<open>SqlSelect\<close>,
  \<open>SqlSource\<close>, \<open>SqlWhere\<close>) are not among the sources. A statement has its selected
  columns, its FROM list and an optional WHERE; a table reference has a name and an
  optional sub-query \<open>Source\<close>; a WHERE has an optional sub-query \<open>Source\<close> and an
  expression \<open>Expr\<close>, which may be nil. The pointers in the FROM list are not nil.
\<close>

datatype 'f SqlSelect =
    SqlSelect (Columns: "'f Node list") (From: "'f SqlSource list") (Where: "'f SqlWhere option")
  and 'f SqlSource =
    SqlSource (Name: string) (Source: "'f SqlSelect option")
  and 'f SqlWhere =
    SqlWhere (where_Source: "'f SqlSelect option") (Expr: "'f Node")

text \<open>
  Modelled from the spec: the task types of package \<open>exec\<close> are not among the sources.
  A task is what one of the constructors \<open>NewSource(from, scanner)\<close>,
  \<open>NewWhere(expr)\<close>, \<open>NewProjection(stmt)\<close> and \<open>NewSourceJoin\<close> was given: a
  source scan, a filter, a projection, or the join of two sources.
\<close>

datatype 'f Task =
    SourceTask "'f SqlSource" SourceConn
  | WhereTask "'f Node"
  | ProjectionTask "'f SqlSelect"
  | SourceJoinTask "'f SqlSource" "'f SqlSource"

text \<open>
  Modelled from the spec: \<open>RuntimeConfig\<close> of package \<open>datasource\<close> is not among the
  sources. \<open>Conn name\<close> is the connection that \<open>m.schema.Conn(name)\<close> resolves for a
  table name, nil when there is none.
\<close>

record RuntimeConfig =
  Conn :: "string \<Rightarrow> SourceConn option"

record 'f JobBuilder =
  schema :: RuntimeConfig
  connInfo :: string
  jb_where :: "'f Node"
  jb_distinct :: bool
  children :: "'f Task list"

text \<open>
  The two functions of the join path that are not among the sources, as parameters:
  \<open>Rewrite isLeft stmt i\<close> is the statement after \<open>stmt.From[i].Rewrite(isLeft, stmt)\<close>,
  and \<open>NewSourceJoin m l r schema\<close> is what \<open>NewSourceJoin(m, l, r, m.schema)\<close> returns,
  the join task of the two table references or an error.
\<close>

record 'f join_path =
  Rewrite :: "bool \<Rightarrow> 'f SqlSelect \<Rightarrow> nat \<Rightarrow> 'f SqlSelect"
  NewSourceJoin ::
    "'f JobBuilder \<Rightarrow> 'f SqlSource \<Rightarrow> 'f SqlSource \<Rightarrow> RuntimeConfig \<Rightarrow> error + 'f Task"

text \<open>
  The first part of \<open>VisitSelect\<close>, on the shape of the FROM list: the tasks so far and
  the statement as the later parts see it, or the error returned. With one table, the
  connection is resolved only if the table has a name and no sub-query; a connection that
  is nil or does not implement \<open>Scanner\<close> fails the type assertion.
\<close>

definition visit_from ::
  "'f join_path \<Rightarrow> 'f JobBuilder \<Rightarrow> 'f SqlSelect \<Rightarrow> error + ('f Task list \<times> 'f SqlSelect)" where
  "visit_from jp m stmt =
     (if length (From stmt) = 1 then
        (let from = From stmt ! 0 in
         if Name from \<noteq> [] \<and> Source from = None then
           (case Conn (schema m) (Name from) of
              None \<Rightarrow> Inl MustImplementScanner
            | Some sourceConn \<Rightarrow>
                if \<not> conn_Scanner sourceConn then Inl MustImplementScanner
                else Inr ([SourceTask from sourceConn], stmt))
         else Inr ([], stmt))
      else if length (From stmt) \<noteq> 2 then Inl NotCurrentlyImplemented
      else
        (let stmt1 = Rewrite jp True stmt 0;
             stmt2 = Rewrite jp False stmt1 1
         in (case NewSourceJoin jp m (From stmt2 ! 0) (From stmt2 ! 1) (schema m) of
               Inl err \<Rightarrow> Inl err
             | Inr task \<Rightarrow> Inr ([task], stmt2))))"

text \<open>The second part, on the WHERE: the task added, if any, and the warning logged.\<close>

definition visit_where :: "'f SqlSelect \<Rightarrow> 'f Task list \<times> log list" where
  "visit_where stmt =
     (case Where stmt of
        None \<Rightarrow> ([], [])
      | Some w \<Rightarrow>
          if where_Source w \<noteq> None then ([], [Warn_unsupported_subquery])
          else if Expr w \<noteq> NilNode then ([WhereTask (Expr w)], [])
          else ([], [Warn_unsupported_where_type]))"

text \<open>
  \<open>VisitSelect\<close>: the task list or the error, and the warnings logged. The projection
  is added last.
\<close>

definition VisitSelect ::
  "'f join_path \<Rightarrow> 'f JobBuilder \<Rightarrow> 'f SqlSelect \<Rightarrow> (error + 'f Task list) \<times> log list" where
  "VisitSelect jp m stmt =
     (case visit_from jp m stmt of
        Inl err \<Rightarrow> (Inl err, [])
      | Inr (tasks, stmt') \<Rightarrow>
          (let (wtasks, lg) = visit_where stmt'
           in (Inr (tasks @ wtasks @ [ProjectionTask stmt']), lg)))"

section \<open>Theorems\<close>

subsection \<open>Type inference\<close>

text \<open>
  C8. \<open>ValueTypeFromNode\<close> depends on the shape of the node only: a string literal
  and an identity have string type; a number has numeric type; a binary node has
  boolean type when its operator is logical AND or OR, whatever its operands are,
  numeric type when the operator is multiply, minus, add or divide, integer type
  when it is modulus, and unknown type for every other operator; the nil node has
  unknown type.
\<close>

theorem ValueTypeFromNode_by_shape:
  "ValueTypeFromNode (StringNode p txt) = StringType
   \<and> ValueTypeFromNode (IdentNode i) = StringType
   \<and> ValueTypeFromNode (NumberNode n) = NumberType
   \<and> (tok_T op \<in> {TokenLogicAnd, TokenLogicOr} \<longrightarrow>
        ValueTypeFromNode (BinaryNode q paren a0 a1 op) = BoolType)
   \<and> (tok_T op \<in> {TokenMultiply, TokenMinus, TokenAdd, TokenDivide} \<longrightarrow>
        ValueTypeFromNode (BinaryNode q paren a0 a1 op) = NumberType)
   \<and> (tok_T op = TokenModulus \<longrightarrow>
        ValueTypeFromNode (BinaryNode q paren a0 a1 op) = IntType)
   \<and> (tok_T op \<notin> {TokenLogicAnd, TokenLogicOr, TokenMultiply, TokenMinus, TokenAdd,
                 TokenDivide, TokenModulus} \<longrightarrow>
        ValueTypeFromNode (BinaryNode q paren a0 a1 op) = UnknownType)
   \<and> ValueTypeFromNode NilNode = UnknownType"
  by auto

theorem ValueTypeFromNode_by_shape_witness:
  "ValueTypeFromNode (BinaryNode 4 False (StringNode 0 ''a'') (NullNode 9)
       \<lparr>tok_T = TokenLogicOr, tok_V = ''OR'', tok_Pos = 4, tok_Quote = CHR 0x00\<rparr> :: unit Node) = BoolType
   \<and> ValueTypeFromNode (BinaryNode 4 False (StringNode 0 ''a'') (NullNode 9)
       \<lparr>tok_T = TokenMinus, tok_V = ''-'', tok_Pos = 4, tok_Quote = CHR 0x00\<rparr> :: unit Node) = NumberType
   \<and> ValueTypeFromNode (BinaryNode 4 False (StringNode 0 ''a'') (NullNode 9)
       \<lparr>tok_T = TokenModulus, tok_V = ''%'', tok_Pos = 4, tok_Quote = CHR 0x00\<rparr> :: unit Node) = IntType
   \<and> ValueTypeFromNode (BinaryNode 4 False (StringNode 0 ''a'') (NullNode 9)
       \<lparr>tok_T = TokenOther 3, tok_V = ''<'', tok_Pos = 4, tok_Quote = CHR 0x00\<rparr> :: unit Node) = UnknownType"
  using ValueTypeFromNode_by_shape
          [where op = "\<lparr>tok_T = TokenLogicOr, tok_V = ''OR'', tok_Pos = 4, tok_Quote = CHR 0x00\<rparr>"
             and q = 4 and paren = False and ?a0.0 = "StringNode 0 ''a'' :: unit Node"
             and ?a1.0 = "NullNode 9"]
        ValueTypeFromNode_by_shape
          [where op = "\<lparr>tok_T = TokenMinus, tok_V = ''-'', tok_Pos = 4, tok_Quote = CHR 0x00\<rparr>"
             and q = 4 and paren = False and ?a0.0 = "StringNode 0 ''a'' :: unit Node"
             and ?a1.0 = "NullNode 9"]
        ValueTypeFromNode_by_shape
          [where op = "\<lparr>tok_T = TokenModulus, tok_V = ''%'', tok_Pos = 4, tok_Quote = CHR 0x00\<rparr>"
             and q = 4 and paren = False and ?a0.0 = "StringNode 0 ''a'' :: unit Node"
             and ?a1.0 = "NullNode 9"]
        ValueTypeFromNode_by_shape
          [where op = "\<lparr>tok_T = TokenOther 3, tok_V = ''<'', tok_Pos = 4, tok_Quote = CHR 0x00\<rparr>"
             and q = 4 and paren = False and ?a0.0 = "StringNode 0 ''a'' :: unit Node"
             and ?a1.0 = "NullNode 9"]
  by simp

subsection \<open>Identity qualification\<close>

lemma length_Split: "length (Split s c) = count_list s c + 1"
  by (induction s) (auto split: list.splits)

lemma Split_no_sep: "c \<notin> set s \<Longrightarrow> Split s c = [s]"
  by (induction s) auto

lemma Split_one_sep:
  "c \<notin> set t \<Longrightarrow> Split (t @ c # u) c = t # Split u c"
  by (induction t) auto

text \<open>
  C7. On a node as \<open>NewIdentityNode\<close> makes it, \<open>LeftRight\<close> returns
  \<open>("t", "c", true)\<close> for the text "t.c" and stores \<open>t\<close> and \<open>c\<close> in the node, and
  returns \<open>("c", "", false)\<close> for the text "c" and stores \<open>c\<close> as the left side.
  On every node whose left side is not stored yet (it is empty): a text \<open>t.c\<close> with one
  dot gives \<open>t\<close>, \<open>c\<close> and whether \<open>c\<close> is not empty, and both are stored; a text
  without a dot gives the text and the right side of the node, and the text is stored as
  the left side; a text with more than one dot gives the full text, an empty right side
  and false, and nothing is stored. On every node whose left side is stored, the call
  returns the stored left and right side, and whether the right side is not empty,
  without looking at the text, and leaves the node as it is. On every node, a second
  call (on the node as the first call left it) returns the same three values and leaves
  the node as it is.
\<close>

theorem LeftRight_splits_and_caches:
  "(tok_V tok = ''t.c'' \<longrightarrow>
      LeftRight (NewIdentityNode tok)
        = ((''t'', ''c'', True), (NewIdentityNode tok)\<lparr>left := ''t'', right := ''c''\<rparr>))
   \<and> (tok_V tok = ''c'' \<longrightarrow>
      LeftRight (NewIdentityNode tok)
        = ((''c'', [], False), (NewIdentityNode tok)\<lparr>left := ''c''\<rparr>))
   \<and> (left m = [] \<and> CHR ''.'' \<notin> set t \<and> CHR ''.'' \<notin> set c \<and> id_Text m = t @ ''.'' @ c \<longrightarrow>
      LeftRight m = ((t, c, c \<noteq> []), m\<lparr>left := t, right := c\<rparr>))
   \<and> (left m = [] \<and> CHR ''.'' \<notin> set (id_Text m) \<longrightarrow>
      LeftRight m = ((id_Text m, right m, right m \<noteq> []), m\<lparr>left := id_Text m\<rparr>))
   \<and> (left m = [] \<and> 1 < count_list (id_Text m) CHR ''.'' \<longrightarrow>
      LeftRight m = ((id_Text m, [], False), m))
   \<and> (left m \<noteq> [] \<longrightarrow> LeftRight m = ((left m, right m, right m \<noteq> []), m))
   \<and> (LeftRight m = (r, m') \<longrightarrow> LeftRight m' = (r, m'))"
proof (intro conjI impI)
  assume "tok_V tok = ''t.c''"
  then show "LeftRight (NewIdentityNode tok)
        = ((''t'', ''c'', True), (NewIdentityNode tok)\<lparr>left := ''t'', right := ''c''\<rparr>)"
    by (simp add: LeftRight_def NewIdentityNode_def)
next
  assume "tok_V tok = ''c''"
  then show "LeftRight (NewIdentityNode tok)
        = ((''c'', [], False), (NewIdentityNode tok)\<lparr>left := ''c''\<rparr>)"
    by (simp add: LeftRight_def NewIdentityNode_def)
next
  assume a: "left m = [] \<and> CHR ''.'' \<notin> set t \<and> CHR ''.'' \<notin> set c \<and> id_Text m = t @ ''.'' @ c"
  then have "Split (id_Text m) CHR ''.'' = [t, c]"
    by (simp add: Split_one_sep Split_no_sep)
  with a show "LeftRight m = ((t, c, c \<noteq> []), m\<lparr>left := t, right := c\<rparr>)"
    by (simp add: LeftRight_def)
next
  assume a: "left m = [] \<and> CHR ''.'' \<notin> set (id_Text m)"
  then have "Split (id_Text m) CHR ''.'' = [id_Text m]"
    by (simp add: Split_no_sep)
  with a show "LeftRight m = ((id_Text m, right m, right m \<noteq> []), m\<lparr>left := id_Text m\<rparr>)"
    by (simp add: LeftRight_def)
next
  assume a: "left m = [] \<and> 1 < count_list (id_Text m) CHR ''.''"
  then have "2 < length (Split (id_Text m) CHR ''.'')"
    by (simp add: length_Split)
  with a show "LeftRight m = ((id_Text m, [], False), m)"
    by (simp add: LeftRight_def Let_def)
next
  assume "left m \<noteq> []"
  then show "LeftRight m = ((left m, right m, right m \<noteq> []), m)"
    by (simp add: LeftRight_def)
next
  assume "LeftRight m = (r, m')"
  then show "LeftRight m' = (r, m')"
    by (auto simp: LeftRight_def Let_def split: if_splits)
qed

theorem LeftRight_splits_and_caches_witness:
  "LeftRight (NewIdentityNode \<lparr>tok_T = TokenOther 0, tok_V = ''t.c'', tok_Pos = 7, tok_Quote = CHR 0x00\<rparr>)
     = ((''t'', ''c'', True),
        \<lparr>id_Pos = 7, Quote = CHR 0x00, id_Text = ''t.c'', left = ''t'', right = ''c''\<rparr>)
   \<and> LeftRight (NewIdentityNode \<lparr>tok_T = TokenOther 0, tok_V = ''c'', tok_Pos = 7, tok_Quote = CHR 0x00\<rparr>)
     = ((''c'', [], False),
        \<lparr>id_Pos = 7, Quote = CHR 0x00, id_Text = ''c'', left = ''c'', right = []\<rparr>)
   \<and> LeftRight \<lparr>id_Pos = 7, Quote = CHR 0x00, id_Text = ''a.b.c'', left = [], right = []\<rparr>
     = ((''a.b.c'', [], False),
        \<lparr>id_Pos = 7, Quote = CHR 0x00, id_Text = ''a.b.c'', left = [], right = []\<rparr>)
   \<and> LeftRight \<lparr>id_Pos = 7, Quote = CHR 0x00, id_Text = ''u.v'', left = ''t'', right = ''c''\<rparr>
     = ((''t'', ''c'', True),
        \<lparr>id_Pos = 7, Quote = CHR 0x00, id_Text = ''u.v'', left = ''t'', right = ''c''\<rparr>)
   \<and> LeftRight \<lparr>id_Pos = 7, Quote = CHR 0x00, id_Text = ''t.c'', left = ''t'', right = ''c''\<rparr>
     = ((''t'', ''c'', True),
        \<lparr>id_Pos = 7, Quote = CHR 0x00, id_Text = ''t.c'', left = ''t'', right = ''c''\<rparr>)"
  using LeftRight_splits_and_caches
      [where tok = "\<lparr>tok_T = TokenOther 0, tok_V = ''t.c'', tok_Pos = 7, tok_Quote = CHR 0x00\<rparr>"
         and t = "''t''" and c = "''c''"
         and m = "NewIdentityNode \<lparr>tok_T = TokenOther 0, tok_V = ''t.c'', tok_Pos = 7, tok_Quote = CHR 0x00\<rparr>"
         and r = "(''t'', ''c'', True)"
         and m' = "\<lparr>id_Pos = 7, Quote = CHR 0x00, id_Text = ''t.c'', left = ''t'', right = ''c''\<rparr>"]
    LeftRight_splits_and_caches
      [where tok = "\<lparr>tok_T = TokenOther 0, tok_V = ''c'', tok_Pos = 7, tok_Quote = CHR 0x00\<rparr>"
         and t = "''c''" and c = "[]"
         and m = "NewIdentityNode \<lparr>tok_T = TokenOther 0, tok_V = ''c'', tok_Pos = 7, tok_Quote = CHR 0x00\<rparr>"
         and r = "(''c'', [], False)"
         and m' = "\<lparr>id_Pos = 7, Quote = CHR 0x00, id_Text = ''c'', left = ''c'', right = []\<rparr>"]
    LeftRight_splits_and_caches
      [where tok = "\<lparr>tok_T = TokenOther 0, tok_V = ''c'', tok_Pos = 7, tok_Quote = CHR 0x00\<rparr>"
         and t = "''a''" and c = "''b''"
         and m = "\<lparr>id_Pos = 7, Quote = CHR 0x00, id_Text = ''a.b.c'', left = [], right = []\<rparr>"
         and r = "(''a.b.c'', [], False)"
         and m' = "\<lparr>id_Pos = 7, Quote = CHR 0x00, id_Text = ''a.b.c'', left = [], right = []\<rparr>"]
    LeftRight_splits_and_caches
      [where tok = "\<lparr>tok_T = TokenOther 0, tok_V = ''c'', tok_Pos = 7, tok_Quote = CHR 0x00\<rparr>"
         and t = "''u''" and c = "''v''"
         and m = "\<lparr>id_Pos = 7, Quote = CHR 0x00, id_Text = ''u.v'', left = ''t'', right = ''c''\<rparr>"
         and r = "(''t'', ''c'', True)"
         and m' = "\<lparr>id_Pos = 7, Quote = CHR 0x00, id_Text = ''u.v'', left = ''t'', right = ''c''\<rparr>"]
  by (simp add: NewIdentityNode_def)

subsection \<open>Number literals\<close>

text \<open>
  C4, as amended. For every text, \<open>NewNumber\<close> either fails, with the error "illegal
  number syntax", or makes a node with at least one of \<open>IsInt\<close> and \<open>IsFloat\<close> set.
  When the text parses as an integer, the node has both flags set, the integer, and the
  float \<open>float64(Int64)\<close>. When the text parses as a float only and the float is the
  \<open>float64\<close> of its own \<open>int64\<close> conversion (the source's test
  \<open>float64(int64(f)) == f\<close>: a float with no fractional part that an \<open>int64\<close> holds),
  the node has both flags set, the float, and the integer \<open>int64(f)\<close>; for any other
  float \<open>IsInt\<close> stays false. When the text parses as neither, \<open>NewNumber\<close> fails.
  For the text "5", which \<open>strconv.ParseInt\<close> reads as 5, the node has \<open>IsInt\<close> and
  \<open>IsFloat\<close> true, \<open>Int64 = 5\<close> and \<open>Float64 = float64(5)\<close>. This holds for every
  behaviour of the library functions and of the float operations.
\<close>

theorem NewNumber_flags:
  "(case NewNumber go pos lit of
      Inl err \<Rightarrow> err = IllegalNumberSyntax lit
    | Inr n \<Rightarrow> (IsInt n \<or> IsFloat n) \<and> num_Pos n = pos \<and> num_Text n = lit)
   \<and> (ParseInt go lit = Some u \<longrightarrow>
        NewNumber go pos lit =
          Inr \<lparr>num_Pos = pos, IsInt = True, IsFloat = True, Int64 = u,
               Float64 = float64_of_int64 go u, num_Text = lit\<rparr>)
   \<and> (ParseInt go lit = None \<and> ParseFloat go lit = Some f \<and> is_whole go f \<longrightarrow>
        NewNumber go pos lit =
          Inr \<lparr>num_Pos = pos, IsInt = True, IsFloat = True, Int64 = int64_of_float64 go f,
               Float64 = f, num_Text = lit\<rparr>)
   \<and> (ParseInt go lit = None \<and> ParseFloat go lit = Some f \<and> \<not> is_whole go f \<longrightarrow>
        NewNumber go pos lit =
          Inr \<lparr>num_Pos = pos, IsInt = False, IsFloat = True, Int64 = 0,
               Float64 = f, num_Text = lit\<rparr>)
   \<and> (ParseInt go lit = None \<and> ParseFloat go lit = None \<longrightarrow>
        NewNumber go pos lit = Inl (IllegalNumberSyntax lit))
   \<and> (ParseInt go ''5'' = Some 5 \<longrightarrow>
        NewNumber go pos ''5'' =
          Inr \<lparr>num_Pos = pos, IsInt = True, IsFloat = True, Int64 = 5,
               Float64 = float64_of_int64 go 5, num_Text = ''5''\<rparr>)"
  by (auto simp: NewNumber_def Let_def split: option.splits sum.splits)

theorem NewNumber_flags_witness:
  "NewNumber
     \<lparr>ParseInt = (\<lambda>t. if t = ''5'' then Some 5 else None),
        ParseFloat = (\<lambda>t. if t = ''5'' \<or> t = ''5.0'' then Some 5
                           else if t = ''2.5'' then Some (5 / 2) else None),
        float64_of_int64 = (\<lambda>i. if i = 5 then 5 else if i = 2 then 2 else 0),
        int64_of_float64 = (\<lambda>f. if f = 5 then 5 else if f = 5 / 2 then 2 else 0),
        float64_eq = (=), float64_zero = 0 :: rat\<rparr>
     0 ''5''
   = Inr \<lparr>num_Pos = 0, IsInt = True, IsFloat = True, Int64 = 5, Float64 = 5,
          num_Text = ''5''\<rparr>
   \<and> NewNumber
       \<lparr>ParseInt = (\<lambda>t. if t = ''5'' then Some 5 else None),
          ParseFloat = (\<lambda>t. if t = ''5'' \<or> t = ''5.0'' then Some 5
                             else if t = ''2.5'' then Some (5 / 2) else None),
          float64_of_int64 = (\<lambda>i. if i = 5 then 5 else if i = 2 then 2 else 0),
          int64_of_float64 = (\<lambda>f. if f = 5 then 5 else if f = 5 / 2 then 2 else 0),
          float64_eq = (=), float64_zero = 0 :: rat\<rparr>
       0 ''5.0''
     = Inr \<lparr>num_Pos = 0, IsInt = True, IsFloat = True, Int64 = 5, Float64 = 5,
            num_Text = ''5.0''\<rparr>
   \<and> NewNumber
       \<lparr>ParseInt = (\<lambda>t. if t = ''5'' then Some 5 else None),
          ParseFloat = (\<lambda>t. if t = ''5'' \<or> t = ''5.0'' then Some 5
                             else if t = ''2.5'' then Some (5 / 2) else None),
          float64_of_int64 = (\<lambda>i. if i = 5 then 5 else if i = 2 then 2 else 0),
          int64_of_float64 = (\<lambda>f. if f = 5 then 5 else if f = 5 / 2 then 2 else 0),
          float64_eq = (=), float64_zero = 0 :: rat\<rparr>
       0 ''2.5''
     = Inr \<lparr>num_Pos = 0, IsInt = False, IsFloat = True, Int64 = 0, Float64 = 5 / 2,
            num_Text = ''2.5''\<rparr>
   \<and> NewNumber
       \<lparr>ParseInt = (\<lambda>t. if t = ''5'' then Some 5 else None),
          ParseFloat = (\<lambda>t. if t = ''5'' \<or> t = ''5.0'' then Some 5
                             else if t = ''2.5'' then Some (5 / 2) else None),
          float64_of_int64 = (\<lambda>i. if i = 5 then 5 else if i = 2 then 2 else 0),
          int64_of_float64 = (\<lambda>f. if f = 5 then 5 else if f = 5 / 2 then 2 else 0),
          float64_eq = (=), float64_zero = 0 :: rat\<rparr>
       0 ''abc''
     = Inl (IllegalNumberSyntax ''abc'')"
proof -
  let ?go = "\<lparr>ParseInt = (\<lambda>t. if t = ''5'' then Some 5 else None),
                ParseFloat = (\<lambda>t. if t = ''5'' \<or> t = ''5.0'' then Some 5
                                   else if t = ''2.5'' then Some (5 / 2) else None),
                float64_of_int64 = (\<lambda>i. if i = 5 then 5 else if i = 2 then 2 else 0),
                int64_of_float64 = (\<lambda>f. if f = 5 then 5 else if f = 5 / 2 then 2 else 0),
                float64_eq = (=), float64_zero = 0 :: rat\<rparr>"
  show ?thesis
    using NewNumber_flags [where go = "?go" and lit = "''5''" and pos = 0 and u = 5]
      NewNumber_flags [where go = "?go" and lit = "''5.0''" and pos = 0 and f = 5]
      NewNumber_flags [where go = "?go" and lit = "''2.5''" and pos = 0 and f = "5 / 2"]
      NewNumber_flags [where go = "?go" and lit = "''abc''" and pos = 0]
    by (simp add: is_whole_def)
qed

lemma sint64_below: "real_of_int (sint (w :: 64 word)) < 1000000000000000019884624838656"
proof -
  have "sint w < 2 ^ 63"
    using sint_lt [of w] by simp
  then have "sint w < 1000000000000000019884624838656"
    by simp
  then show ?thesis
    by (metis of_int_less_iff of_int_numeral)
qed

text \<open>
  The claim as stated fails for a float without fractional part that no \<open>int64\<close>
  holds. The text "1e30" does not parse as an integer and parses as the float
  1000000000000000019884624838656, a whole number above \<open>2^63\<close>. Whatever \<open>int64(f)\<close>
  gives for it (here the least \<open>int64\<close>), the float of that integer lies below
  \<open>2^63\<close> and differs from \<open>f\<close>: the node is not back-promoted and \<open>IsInt\<close> is
  false. The runtime of the example has the reals for \<open>float64\<close>.
\<close>

theorem NewNumber_large_whole_float_counterexample:
  "ParseInt
     \<lparr>ParseInt = (\<lambda>t. if t = ''5'' then Some 5 else None),
        ParseFloat = (\<lambda>t. if t = ''1e30'' then Some 1000000000000000019884624838656
                           else None),
        float64_of_int64 = (\<lambda>i. real_of_int (sint i)),
        int64_of_float64 = (\<lambda>f. if - (2 ^ 63) \<le> f \<and> f < 2 ^ 63
                                 then word_of_int (if 0 \<le> f then \<lfloor>f\<rfloor> else \<lceil>f\<rceil>)
                                 else - (2 ^ 63)),
        float64_eq = (=), float64_zero = 0\<rparr>
     ''1e30'' = None
   \<and> ParseFloat
       \<lparr>ParseInt = (\<lambda>t. if t = ''5'' then Some 5 else None),
          ParseFloat = (\<lambda>t. if t = ''1e30'' then Some 1000000000000000019884624838656
                             else None),
          float64_of_int64 = (\<lambda>i. real_of_int (sint i)),
          int64_of_float64 = (\<lambda>f. if - (2 ^ 63) \<le> f \<and> f < 2 ^ 63
                                   then word_of_int (if 0 \<le> f then \<lfloor>f\<rfloor> else \<lceil>f\<rceil>)
                                   else - (2 ^ 63)),
          float64_eq = (=), float64_zero = 0\<rparr>
       ''1e30'' = Some 1000000000000000019884624838656
   \<and> (1000000000000000019884624838656 :: real) \<in> \<int>
   \<and> NewNumber
       \<lparr>ParseInt = (\<lambda>t. if t = ''5'' then Some 5 else None),
          ParseFloat = (\<lambda>t. if t = ''1e30'' then Some 1000000000000000019884624838656
                             else None),
          float64_of_int64 = (\<lambda>i. real_of_int (sint i)),
          int64_of_float64 = (\<lambda>f. if - (2 ^ 63) \<le> f \<and> f < 2 ^ 63
                                   then word_of_int (if 0 \<le> f then \<lfloor>f\<rfloor> else \<lceil>f\<rceil>)
                                   else - (2 ^ 63)),
          float64_eq = (=), float64_zero = 0\<rparr>
       0 ''1e30''
     = Inr \<lparr>num_Pos = 0, IsInt = False, IsFloat = True, Int64 = 0,
            Float64 = 1000000000000000019884624838656, num_Text = ''1e30''\<rparr>"
proof -
  have "real_of_int (sint (w :: 64 word)) \<noteq> 1000000000000000019884624838656" for w
    using sint64_below [of w] by simp
  then show ?thesis
    by (simp add: NewNumber_def is_whole_def)
qed

subsection \<open>Check on a function call\<close>

lemma Check_args_first_failure:
  "Check_args args =
     (case filter (\<lambda>a. a \<noteq> NilNode \<and> Check a \<noteq> None) args of
        [] \<Rightarrow> None
      | a # rest \<Rightarrow> Check a)"
  by (induction args) (auto split: option.splits)

lemma Check_FuncNode_arity:
  "(length args < length (Args f) \<and> \<not> VariadicArgs f \<longrightarrow>
      Check (FuncNode p name f args)
        = Some (NotEnoughArguments name (length args) (length (Args f))))
   \<and> (length (Args f) < length args \<and> \<not> VariadicArgs f \<longrightarrow>
      Check (FuncNode p name f args)
        = Some (TooManyArguments name (length (Args f)) (length args)))
   \<and> (VariadicArgs f \<or> length args = length (Args f) \<longrightarrow>
      Check (FuncNode p name f args) = Check_args args)"
  by auto

text \<open>
  C5. The function \<open>tolower\<close> is declared with one parameter of kind string and is not
  variadic; it is called with one argument, the number literal 5, whose \<open>Type()\<close> has
  kind float64. The kinds differ, and \<open>Check\<close> on the call returns nil: the arm of the
  type switch that compares the kinds is never entered. (The rest of the claim holds:
  \<open>Check_FuncNode_arity\<close> and \<open>Check_args_first_failure\<close>.)
\<close>

theorem Check_ignores_kind_mismatch:
  "Args \<lparr>func_Name = ''tolower'', Args = [kString], VariadicArgs = False,
          Return = kString, ReturnValueType = StringType\<rparr> ! 0 = kString
   \<and> Type_of (NumberNode \<lparr>num_Pos = 8, IsInt = True, IsFloat = True, Int64 = 5,
                           Float64 = 5, num_Text = ''5''\<rparr> :: rat Node) = kFloat64
   \<and> Check (FuncNode 0 ''tolower''
               \<lparr>func_Name = ''tolower'', Args = [kString], VariadicArgs = False,
                Return = kString, ReturnValueType = StringType\<rparr>
               [NumberNode \<lparr>num_Pos = 8, IsInt = True, IsFloat = True, Int64 = 5,
                            Float64 = 5, num_Text = ''5''\<rparr> :: rat Node]) = None"
  by simp

subsection \<open>FindIdentityName\<close>

lemma FindIdentityName_FuncNode_capped:
  "10 < sint depth \<Longrightarrow>
     FindIdentityName gs fm depth (FuncNode p name f args) prefix = Inr []"
  by simp

text \<open>
  C9. Twelve nested binary nodes, each holding the next one as its first operand, around
  the identity \<open>x\<close>: the identity lies twelve levels deep, and \<open>FindIdentityName\<close>
  from depth 0 returns an alias that is not the empty string: the lower-cased text
  \<open>x\<close>, an underscore and \<open>x\<close> (that is \<open>x_x\<close>, as \<open>strings.ToLower\<close>
  leaves \<open>x\<close> as it is; with an empty prefix the alias would be \<open>x\<close>). The test
  \<open>depth > 10\<close> is made on a \<open>FuncNode\<close> only; the path through binary nodes has no
  cap.
\<close>

theorem FindIdentityName_binary_chain_not_capped:
  "FindIdentityName gs fm 0
     (BinaryNode 0 False (BinaryNode 0 False (BinaryNode 0 False (BinaryNode 0 False
     (BinaryNode 0 False (BinaryNode 0 False (BinaryNode 0 False (BinaryNode 0 False
     (BinaryNode 0 False (BinaryNode 0 False (BinaryNode 0 False (BinaryNode 0 False
        (IdentNode \<lparr>id_Pos = 0, Quote = CHR 0x00, id_Text = ''x'', left = [], right = []\<rparr>)
        (NullNode 0) eq) (NullNode 0) eq) (NullNode 0) eq) (NullNode 0) eq) (NullNode 0) eq)
        (NullNode 0) eq) (NullNode 0) eq) (NullNode 0) eq) (NullNode 0) eq) (NullNode 0) eq)
        (NullNode 0) eq) (NullNode 0) eq :: unit Node) []
   = Inr (if ToLower gs ''x'' = [] then ''x'' else ToLower gs ''x'' @ ''_x'')"
  by simp

theorem FindIdentityName_binary_chain_not_capped_witness:
  "FindIdentityName
     \<lparr>ToLower = (\<lambda>s. if s = ''X'' then ''x'' else s)\<rparr>
     \<lparr>fmt_q = (\<lambda>s. CHR 0x22 # s @ [CHR 0x22]), fmt_s_panic = (\<lambda>pn. ''%!s(PANIC)'')\<rparr>
     0
     (BinaryNode 0 False (BinaryNode 0 False (BinaryNode 0 False (BinaryNode 0 False
     (BinaryNode 0 False (BinaryNode 0 False (BinaryNode 0 False (BinaryNode 0 False
     (BinaryNode 0 False (BinaryNode 0 False (BinaryNode 0 False (BinaryNode 0 False
        (IdentNode \<lparr>id_Pos = 0, Quote = CHR 0x00, id_Text = ''x'', left = [], right = []\<rparr>)
        (NullNode 0) \<lparr>tok_T = TokenOther 0, tok_V = ''='', tok_Pos = 0, tok_Quote = CHR 0x00\<rparr>)
        (NullNode 0) \<lparr>tok_T = TokenOther 0, tok_V = ''='', tok_Pos = 0, tok_Quote = CHR 0x00\<rparr>)
        (NullNode 0) \<lparr>tok_T = TokenOther 0, tok_V = ''='', tok_Pos = 0, tok_Quote = CHR 0x00\<rparr>)
        (NullNode 0) \<lparr>tok_T = TokenOther 0, tok_V = ''='', tok_Pos = 0, tok_Quote = CHR 0x00\<rparr>)
        (NullNode 0) \<lparr>tok_T = TokenOther 0, tok_V = ''='', tok_Pos = 0, tok_Quote = CHR 0x00\<rparr>)
        (NullNode 0) \<lparr>tok_T = TokenOther 0, tok_V = ''='', tok_Pos = 0, tok_Quote = CHR 0x00\<rparr>)
        (NullNode 0) \<lparr>tok_T = TokenOther 0, tok_V = ''='', tok_Pos = 0, tok_Quote = CHR 0x00\<rparr>)
        (NullNode 0) \<lparr>tok_T = TokenOther 0, tok_V = ''='', tok_Pos = 0, tok_Quote = CHR 0x00\<rparr>)
        (NullNode 0) \<lparr>tok_T = TokenOther 0, tok_V = ''='', tok_Pos = 0, tok_Quote = CHR 0x00\<rparr>)
        (NullNode 0) \<lparr>tok_T = TokenOther 0, tok_V = ''='', tok_Pos = 0, tok_Quote = CHR 0x00\<rparr>)
        (NullNode 0) \<lparr>tok_T = TokenOther 0, tok_V = ''='', tok_Pos = 0, tok_Quote = CHR 0x00\<rparr>)
        (NullNode 0) \<lparr>tok_T = TokenOther 0, tok_V = ''='', tok_Pos = 0, tok_Quote = CHR 0x00\<rparr> :: unit Node)
     []
   = Inr ''x_x''"
  using FindIdentityName_binary_chain_not_capped
    [where gs = "\<lparr>ToLower = (\<lambda>s. if s = ''X'' then ''x'' else s)\<rparr>"
       and fm = "\<lparr>fmt_q = (\<lambda>s. CHR 0x22 # s @ [CHR 0x22]),
                  fmt_s_panic = (\<lambda>pn. ''%!s(PANIC)'')\<rparr>"
       and eq = "\<lparr>tok_T = TokenOther 0, tok_V = ''='', tok_Pos = 0, tok_Quote = CHR 0x00\<rparr>"]
  by simp

subsection \<open>Planning a SELECT\<close>

lemma VisitSelect_projection_last:
  "VisitSelect jp m stmt = (Inr tasks, lg) \<Longrightarrow> \<exists>stmt'. last tasks = ProjectionTask stmt'"
  by (auto simp: VisitSelect_def split: sum.splits prod.splits)

text \<open>
  C1, as amended. Take a SELECT with exactly one FROM table that has a name and no
  sub-query, whose connection, resolved from the name, implements \<open>Scanner\<close>. Then
  \<open>VisitSelect\<close> returns a task list that starts with the Source task of that table and
  connection and ends with the Projection task of the statement; between them stands a
  Filter task exactly when the statement has a WHERE without a sub-query and with an
  expression that is not nil, and then the list is Source, Filter, Projection. A WHERE with
  a sub-query (whatever its expression), and a WHERE with neither sub-query nor
  expression, add no task and log a warning. Every SELECT whose single FROM entry has an
  empty name or a sub-query gets no Source task, whatever the connections are: its task
  list is the Filter task (by the same rule) and the Projection task.
\<close>

theorem VisitSelect_single_table_pipeline:
  "(From stmt = [frm] \<and> Name frm \<noteq> [] \<and> Source frm = None
      \<and> Conn (schema m) (Name frm) = Some c \<and> conn_Scanner c \<longrightarrow>
    (Where stmt = None \<longrightarrow>
       VisitSelect jp m stmt = (Inr [SourceTask frm c, ProjectionTask stmt], []))
    \<and> (Where stmt = Some w \<and> where_Source w = None \<and> Expr w \<noteq> NilNode \<longrightarrow>
       VisitSelect jp m stmt
         = (Inr [SourceTask frm c, WhereTask (Expr w), ProjectionTask stmt], []))
    \<and> (Where stmt = Some w \<and> where_Source w \<noteq> None \<longrightarrow>
       VisitSelect jp m stmt
         = (Inr [SourceTask frm c, ProjectionTask stmt], [Warn_unsupported_subquery]))
    \<and> (Where stmt = Some w \<and> where_Source w = None \<and> Expr w = NilNode \<longrightarrow>
       VisitSelect jp m stmt
         = (Inr [SourceTask frm c, ProjectionTask stmt], [Warn_unsupported_where_type])))
   \<and> (From stmt = [frm] \<and> (Name frm = [] \<or> Source frm \<noteq> None) \<longrightarrow>
    (Where stmt = None \<longrightarrow>
       VisitSelect jp m stmt = (Inr [ProjectionTask stmt], []))
    \<and> (Where stmt = Some w \<and> where_Source w = None \<and> Expr w \<noteq> NilNode \<longrightarrow>
       VisitSelect jp m stmt = (Inr [WhereTask (Expr w), ProjectionTask stmt], []))
    \<and> (Where stmt = Some w \<and> where_Source w \<noteq> None \<longrightarrow>
       VisitSelect jp m stmt = (Inr [ProjectionTask stmt], [Warn_unsupported_subquery]))
    \<and> (Where stmt = Some w \<and> where_Source w = None \<and> Expr w = NilNode \<longrightarrow>
       VisitSelect jp m stmt = (Inr [ProjectionTask stmt], [Warn_unsupported_where_type])))"
  by (auto simp: VisitSelect_def visit_from_def visit_where_def)

theorem VisitSelect_single_table_pipeline_witness:
  "VisitSelect
     \<lparr>Rewrite = (\<lambda>isLeft stmt i. stmt),
        NewSourceJoin = (\<lambda>b l r sch. Inl ErrNotImplemented)\<rparr>
     \<lparr>schema = \<lparr>Conn = (\<lambda>name. if name = ''users''
                                  then Some \<lparr>conn_id = 1, conn_Scanner = True\<rparr>
                                else if name = ''logs''
                                  then Some \<lparr>conn_id = 2, conn_Scanner = False\<rparr>
                                else None)\<rparr>,
        connInfo = [], jb_where = NilNode, jb_distinct = False, children = []\<rparr>
     (SqlSelect [] [SqlSource ''users'' None]
        (Some (SqlWhere None
                 (BinaryNode 30 False
                    (IdentNode \<lparr>id_Pos = 25, Quote = CHR 0x00, id_Text = ''name'', left = [], right = []\<rparr>)
                    (StringNode 32 ''bob'')
                    \<lparr>tok_T = TokenOther 0, tok_V = ''='', tok_Pos = 30, tok_Quote = CHR 0x00\<rparr>))) :: unit SqlSelect)
   = (Inr [SourceTask (SqlSource ''users'' None) \<lparr>conn_id = 1, conn_Scanner = True\<rparr>,
           WhereTask
             (BinaryNode 30 False
                (IdentNode \<lparr>id_Pos = 25, Quote = CHR 0x00, id_Text = ''name'', left = [], right = []\<rparr>)
                (StringNode 32 ''bob'')
                \<lparr>tok_T = TokenOther 0, tok_V = ''='', tok_Pos = 30, tok_Quote = CHR 0x00\<rparr>),
           ProjectionTask
             (SqlSelect [] [SqlSource ''users'' None]
                (Some (SqlWhere None
                         (BinaryNode 30 False
                            (IdentNode \<lparr>id_Pos = 25, Quote = CHR 0x00, id_Text = ''name'', left = [], right = []\<rparr>)
                            (StringNode 32 ''bob'')
                            \<lparr>tok_T = TokenOther 0, tok_V = ''='', tok_Pos = 30, tok_Quote = CHR 0x00\<rparr>))))],
      [])
   \<and> VisitSelect
       \<lparr>Rewrite = (\<lambda>isLeft stmt i. stmt),
          NewSourceJoin = (\<lambda>b l r sch. Inl ErrNotImplemented)\<rparr>
       \<lparr>schema = \<lparr>Conn = (\<lambda>name. if name = ''users''
                                    then Some \<lparr>conn_id = 1, conn_Scanner = True\<rparr>
                                  else if name = ''logs''
                                    then Some \<lparr>conn_id = 2, conn_Scanner = False\<rparr>
                                  else None)\<rparr>,
          connInfo = [], jb_where = NilNode, jb_distinct = False, children = []\<rparr>
       (SqlSelect [] [SqlSource ''users'' None]
          (Some (SqlWhere (Some (SqlSelect [] [SqlSource ''ids'' None] None))
                   (BinaryNode 30 False
                      (IdentNode \<lparr>id_Pos = 25, Quote = CHR 0x00, id_Text = ''name'', left = [], right = []\<rparr>)
                      (StringNode 32 ''bob'')
                      \<lparr>tok_T = TokenOther 0, tok_V = ''='', tok_Pos = 30, tok_Quote = CHR 0x00\<rparr>))) :: unit SqlSelect)
     = (Inr [SourceTask (SqlSource ''users'' None) \<lparr>conn_id = 1, conn_Scanner = True\<rparr>,
             ProjectionTask
               (SqlSelect [] [SqlSource ''users'' None]
                  (Some (SqlWhere (Some (SqlSelect [] [SqlSource ''ids'' None] None))
                           (BinaryNode 30 False
                              (IdentNode \<lparr>id_Pos = 25, Quote = CHR 0x00, id_Text = ''name'', left = [], right = []\<rparr>)
                              (StringNode 32 ''bob'')
                              \<lparr>tok_T = TokenOther 0, tok_V = ''='', tok_Pos = 30, tok_Quote = CHR 0x00\<rparr>))))],
        [Warn_unsupported_subquery])
   \<and> VisitSelect
       \<lparr>Rewrite = (\<lambda>isLeft stmt i. stmt),
          NewSourceJoin = (\<lambda>b l r sch. Inl ErrNotImplemented)\<rparr>
       \<lparr>schema = \<lparr>Conn = (\<lambda>name. if name = ''users''
                                    then Some \<lparr>conn_id = 1, conn_Scanner = True\<rparr>
                                  else if name = ''logs''
                                    then Some \<lparr>conn_id = 2, conn_Scanner = False\<rparr>
                                  else None)\<rparr>,
          connInfo = [], jb_where = NilNode, jb_distinct = False, children = []\<rparr>
       (SqlSelect [] [SqlSource [] (Some (SqlSelect [] [SqlSource ''users'' None] None))]
          (Some (SqlWhere None
                   (BinaryNode 30 False
                      (IdentNode \<lparr>id_Pos = 25, Quote = CHR 0x00, id_Text = ''name'', left = [], right = []\<rparr>)
                      (StringNode 32 ''bob'')
                      \<lparr>tok_T = TokenOther 0, tok_V = ''='', tok_Pos = 30, tok_Quote = CHR 0x00\<rparr>))) :: unit SqlSelect)
     = (Inr [WhereTask
               (BinaryNode 30 False
                  (IdentNode \<lparr>id_Pos = 25, Quote = CHR 0x00, id_Text = ''name'', left = [], right = []\<rparr>)
                  (StringNode 32 ''bob'')
                  \<lparr>tok_T = TokenOther 0, tok_V = ''='', tok_Pos = 30, tok_Quote = CHR 0x00\<rparr>),
             ProjectionTask
               (SqlSelect [] [SqlSource [] (Some (SqlSelect [] [SqlSource ''users'' None] None))]
                  (Some (SqlWhere None
                           (BinaryNode 30 False
                              (IdentNode \<lparr>id_Pos = 25, Quote = CHR 0x00, id_Text = ''name'', left = [], right = []\<rparr>)
                              (StringNode 32 ''bob'')
                              \<lparr>tok_T = TokenOther 0, tok_V = ''='', tok_Pos = 30, tok_Quote = CHR 0x00\<rparr>))))],
        [])"
proof -
  let ?jp = "\<lparr>Rewrite = (\<lambda>isLeft stmt i. stmt),
                NewSourceJoin = (\<lambda>b l r sch. Inl ErrNotImplemented)\<rparr> :: unit join_path"
  let ?m = "\<lparr>schema = \<lparr>Conn = (\<lambda>name. if name = ''users''
                                         then Some \<lparr>conn_id = 1, conn_Scanner = True\<rparr>
                                       else if name = ''logs''
                                         then Some \<lparr>conn_id = 2, conn_Scanner = False\<rparr>
                                       else None)\<rparr>,
               connInfo = [], jb_where = NilNode, jb_distinct = False, children = []\<rparr> :: unit JobBuilder"
  let ?e = "(BinaryNode 30 False
               (IdentNode \<lparr>id_Pos = 25, Quote = CHR 0x00, id_Text = ''name'', left = [], right = []\<rparr>)
               (StringNode 32 ''bob'')
               \<lparr>tok_T = TokenOther 0, tok_V = ''='', tok_Pos = 30, tok_Quote = CHR 0x00\<rparr>) :: unit Node"
  let ?c = "\<lparr>conn_id = 1, conn_Scanner = True\<rparr>"
  let ?sub = "SqlSource [] (Some (SqlSelect [] [SqlSource ''users'' None] None)) :: unit SqlSource"
  show ?thesis
    using VisitSelect_single_table_pipeline
        [where jp = "?jp" and m = "?m" and c = "?c"
           and frm = "SqlSource ''users'' None" and w = "SqlWhere None ?e"
           and stmt = "SqlSelect [] [SqlSource ''users'' None] (Some (SqlWhere None ?e))"]
      VisitSelect_single_table_pipeline
        [where jp = "?jp" and m = "?m" and c = "?c"
           and frm = "SqlSource ''users'' None"
           and w = "SqlWhere (Some (SqlSelect [] [SqlSource ''ids'' None] None)) ?e"
           and stmt = "SqlSelect [] [SqlSource ''users'' None]
                (Some (SqlWhere (Some (SqlSelect [] [SqlSource ''ids'' None] None)) ?e))"]
      VisitSelect_single_table_pipeline
        [where jp = "?jp" and m = "?m" and c = "?c"
           and frm = "?sub" and w = "SqlWhere None ?e"
           and stmt = "SqlSelect [] [?sub] (Some (SqlWhere None ?e))"]
    by simp
qed

text \<open>
  The claim as stated fails where the guard of the source does not let the connection be
  resolved: a single FROM table \<open>users\<close> that also carries a sub-query, and a single
  FROM entry with an empty name. Every name (the empty one too) resolves to a connection
  that implements \<open>Scanner\<close>, and in both cases the task list is the Projection alone,
  with no Source task.
\<close>

theorem VisitSelect_single_table_counterexample:
  "VisitSelect
     \<lparr>Rewrite = (\<lambda>isLeft stmt i. stmt),
        NewSourceJoin = (\<lambda>b l r sch. Inl ErrNotImplemented)\<rparr>
     \<lparr>schema = \<lparr>Conn = (\<lambda>name. Some \<lparr>conn_id = 1, conn_Scanner = True\<rparr>)\<rparr>,
        connInfo = [], jb_where = NilNode, jb_distinct = False, children = []\<rparr>
     (SqlSelect []
        [SqlSource ''users'' (Some (SqlSelect [] [SqlSource ''people'' None] None))]
        None :: unit SqlSelect)
   = (Inr [ProjectionTask
             (SqlSelect []
                [SqlSource ''users'' (Some (SqlSelect [] [SqlSource ''people'' None] None))]
                None)],
      [])
   \<and> VisitSelect
       \<lparr>Rewrite = (\<lambda>isLeft stmt i. stmt),
          NewSourceJoin = (\<lambda>b l r sch. Inl ErrNotImplemented)\<rparr>
       \<lparr>schema = \<lparr>Conn = (\<lambda>name. Some \<lparr>conn_id = 1, conn_Scanner = True\<rparr>)\<rparr>,
          connInfo = [], jb_where = NilNode, jb_distinct = False, children = []\<rparr>
       (SqlSelect [] [SqlSource [] None] None :: unit SqlSelect)
     = (Inr [ProjectionTask (SqlSelect [] [SqlSource [] None] None)], [])"
  by (simp add: VisitSelect_def visit_from_def visit_where_def)

text \<open>
  C2, as amended. \<open>VisitSelect\<close> fails with "3 or more Table/Join not currently
  implemented" for every SELECT whose FROM list has zero or three or more tables, and with
  "Must Implement Scanner" for every SELECT with exactly one FROM table that has a name
  and no sub-query and whose resolved connection is nil or does not implement
  \<open>Scanner\<close>; in both cases it returns the error and no task list. Every SELECT whose
  single FROM entry has an empty name or a sub-query is not checked for the capability and
  does not fail, whatever the connections are: it returns the task list made of the Filter
  task, if the WHERE has no sub-query and an expression, and the Projection task.
\<close>

theorem VisitSelect_failures:
  "(length (From stmt) \<noteq> 1 \<and> length (From stmt) \<noteq> 2 \<longrightarrow>
      VisitSelect jp m stmt = (Inl NotCurrentlyImplemented, []))
   \<and> (From stmt = [frm] \<and> Name frm \<noteq> [] \<and> Source frm = None
        \<and> (\<forall>c. Conn (schema m) (Name frm) = Some c \<longrightarrow> \<not> conn_Scanner c) \<longrightarrow>
      VisitSelect jp m stmt = (Inl MustImplementScanner, []))
   \<and> (From stmt = [frm] \<and> (Name frm = [] \<or> Source frm \<noteq> None) \<longrightarrow>
      fst (VisitSelect jp m stmt)
        = Inr ((case Where stmt of
                  None \<Rightarrow> []
                | Some w \<Rightarrow>
                    if where_Source w = None \<and> Expr w \<noteq> NilNode then [WhereTask (Expr w)]
                    else [])
               @ [ProjectionTask stmt]))"
  by (auto simp: VisitSelect_def visit_from_def visit_where_def split: option.splits)

theorem VisitSelect_failures_witness:
  "VisitSelect
     \<lparr>Rewrite = (\<lambda>isLeft stmt i. stmt),
        NewSourceJoin = (\<lambda>b l r sch. Inl ErrNotImplemented)\<rparr>
     \<lparr>schema = \<lparr>Conn = (\<lambda>name. if name = ''users''
                                  then Some \<lparr>conn_id = 1, conn_Scanner = True\<rparr>
                                else if name = ''logs''
                                  then Some \<lparr>conn_id = 2, conn_Scanner = False\<rparr>
                                else None)\<rparr>,
        connInfo = [], jb_where = NilNode, jb_distinct = False, children = []\<rparr>
     (SqlSelect [] [] None :: unit SqlSelect)
   = (Inl NotCurrentlyImplemented, [])
   \<and> VisitSelect
       \<lparr>Rewrite = (\<lambda>isLeft stmt i. stmt),
          NewSourceJoin = (\<lambda>b l r sch. Inl ErrNotImplemented)\<rparr>
       \<lparr>schema = \<lparr>Conn = (\<lambda>name. if name = ''users''
                                    then Some \<lparr>conn_id = 1, conn_Scanner = True\<rparr>
                                  else if name = ''logs''
                                    then Some \<lparr>conn_id = 2, conn_Scanner = False\<rparr>
                                  else None)\<rparr>,
          connInfo = [], jb_where = NilNode, jb_distinct = False, children = []\<rparr>
       (SqlSelect [] [SqlSource ''a'' None, SqlSource ''b'' None, SqlSource ''c'' None] None
          :: unit SqlSelect)
     = (Inl NotCurrentlyImplemented, [])
   \<and> VisitSelect
       \<lparr>Rewrite = (\<lambda>isLeft stmt i. stmt),
          NewSourceJoin = (\<lambda>b l r sch. Inl ErrNotImplemented)\<rparr>
       \<lparr>schema = \<lparr>Conn = (\<lambda>name. if name = ''users''
                                    then Some \<lparr>conn_id = 1, conn_Scanner = True\<rparr>
                                  else if name = ''logs''
                                    then Some \<lparr>conn_id = 2, conn_Scanner = False\<rparr>
                                  else None)\<rparr>,
          connInfo = [], jb_where = NilNode, jb_distinct = False, children = []\<rparr>
       (SqlSelect [] [SqlSource ''logs'' None] None :: unit SqlSelect)
     = (Inl MustImplementScanner, [])
   \<and> fst (VisitSelect
       \<lparr>Rewrite = (\<lambda>isLeft stmt i. stmt),
          NewSourceJoin = (\<lambda>b l r sch. Inl ErrNotImplemented)\<rparr>
       \<lparr>schema = \<lparr>Conn = (\<lambda>name. if name = ''users''
                                    then Some \<lparr>conn_id = 1, conn_Scanner = True\<rparr>
                                  else if name = ''logs''
                                    then Some \<lparr>conn_id = 2, conn_Scanner = False\<rparr>
                                  else None)\<rparr>,
          connInfo = [], jb_where = NilNode, jb_distinct = False, children = []\<rparr>
       (SqlSelect [] [SqlSource [] (Some (SqlSelect [] [SqlSource ''logs'' None] None))] None
          :: unit SqlSelect))
     = Inr [ProjectionTask
              (SqlSelect [] [SqlSource [] (Some (SqlSelect [] [SqlSource ''logs'' None] None))]
                 None)]"
proof -
  let ?jp = "\<lparr>Rewrite = (\<lambda>isLeft stmt i. stmt),
                NewSourceJoin = (\<lambda>b l r sch. Inl ErrNotImplemented)\<rparr> :: unit join_path"
  let ?m = "\<lparr>schema = \<lparr>Conn = (\<lambda>name. if name = ''users''
                                         then Some \<lparr>conn_id = 1, conn_Scanner = True\<rparr>
                                       else if name = ''logs''
                                         then Some \<lparr>conn_id = 2, conn_Scanner = False\<rparr>
                                       else None)\<rparr>,
               connInfo = [], jb_where = NilNode, jb_distinct = False, children = []\<rparr> :: unit JobBuilder"
  let ?sub = "SqlSource [] (Some (SqlSelect [] [SqlSource ''logs'' None] None)) :: unit SqlSource"
  show ?thesis
    using VisitSelect_failures
        [where jp = "?jp" and m = "?m" and frm = "SqlSource ''a'' None"
           and stmt = "SqlSelect [] [] None"]
      VisitSelect_failures
        [where jp = "?jp" and m = "?m" and frm = "SqlSource ''a'' None"
           and stmt = "SqlSelect [] [SqlSource ''a'' None, SqlSource ''b'' None,
                                     SqlSource ''c'' None] None"]
      VisitSelect_failures
        [where jp = "?jp" and m = "?m" and frm = "SqlSource ''logs'' None"
           and stmt = "SqlSelect [] [SqlSource ''logs'' None] None"]
      VisitSelect_failures
        [where jp = "?jp" and m = "?m" and frm = "?sub"
           and stmt = "SqlSelect [] [?sub] None"]
    by simp
qed

text \<open>
  The claim as stated fails for the same two statements: here every name resolves to a
  connection that does not implement \<open>Scanner\<close>, and \<open>VisitSelect\<close> does not fail; it
  returns the Projection task.
\<close>

theorem VisitSelect_failures_counterexample:
  "VisitSelect
     \<lparr>Rewrite = (\<lambda>isLeft stmt i. stmt),
        NewSourceJoin = (\<lambda>b l r sch. Inl ErrNotImplemented)\<rparr>
     \<lparr>schema = \<lparr>Conn = (\<lambda>name. Some \<lparr>conn_id = 2, conn_Scanner = False\<rparr>)\<rparr>,
        connInfo = [], jb_where = NilNode, jb_distinct = False, children = []\<rparr>
     (SqlSelect []
        [SqlSource ''users'' (Some (SqlSelect [] [SqlSource ''people'' None] None))]
        None :: unit SqlSelect)
   = (Inr [ProjectionTask
             (SqlSelect []
                [SqlSource ''users'' (Some (SqlSelect [] [SqlSource ''people'' None] None))]
                None)],
      [])
   \<and> VisitSelect
       \<lparr>Rewrite = (\<lambda>isLeft stmt i. stmt),
          NewSourceJoin = (\<lambda>b l r sch. Inl ErrNotImplemented)\<rparr>
       \<lparr>schema = \<lparr>Conn = (\<lambda>name. Some \<lparr>conn_id = 2, conn_Scanner = False\<rparr>)\<rparr>,
          connInfo = [], jb_where = NilNode, jb_distinct = False, children = []\<rparr>
       (SqlSelect [] [SqlSource [] None] None :: unit SqlSelect)
     = (Inr [ProjectionTask (SqlSelect [] [SqlSource [] None] None)], [])"
  by (simp add: VisitSelect_def visit_from_def visit_where_def)

subsection \<open>Registration and opening\<close>

lemma Get_sources: "Get gs m ord x = (r, m', lg) \<Longrightarrow> sources m' = sources m"
  by (auto simp: Get_def Let_def split: option.splits list.splits prod.splits if_splits)

lemma reachable_keys_lowered:
  "reachable gs m \<Longrightarrow> (k, s) \<in> set (sources m) \<Longrightarrow> \<exists>n. k = ToLower gs n"
proof (induction arbitrary: k s rule: reachable.induct)
  case (reachable_new gs)
  then show ?case by (simp add: newDataSources_def)
next
  case (reachable_Register gs m name source m')
  then show ?case
    by (auto simp: Register_def Let_def split: option.splits if_splits)
next
  case (reachable_Get gs m ord sourceType r m' lg)
  then show ?case by (simp add: Get_sources)
qed

text \<open>
  C10. \<open>Register\<close> stores the source under the lower-cased name and \<open>OpenConn\<close> looks
  the name up as it is given. After a successful \<open>Register(name, source)\<close>,
  \<open>OpenConn\<close> with the lower-cased name returns what the registered backend's
  \<open>Open(config)\<close> returns, and \<open>OpenConn\<close> with any other name does what it did
  before the registration. In every registry the package can hold, if lower-casing
  changes the name (the name contains an upper-case letter), \<open>OpenConn(name, config)\<close>
  returns the error "unknown source". Of \<open>strings.ToLower\<close> the last part uses only
  that lower-casing a lower-cased string changes nothing.
\<close>

theorem OpenConn_after_Register:
  "Register gs name (Some src) m = Inr m' \<longrightarrow>
     OpenConn m' (ToLower gs name) cfg = Open src cfg
   \<and> (\<forall>n. n \<noteq> ToLower gs name \<longrightarrow> OpenConn m' n cfg = OpenConn m n cfg)
   \<and> ((\<forall>s. ToLower gs (ToLower gs s) = ToLower gs s) \<and> reachable gs m
        \<and> ToLower gs name \<noteq> name \<longrightarrow>
      OpenConn m' name cfg = Inl (UnknownSource name))"
proof (intro impI)
  assume a: "Register gs name (Some src) m = Inr m'"
  then have free: "map_of (sources m) (ToLower gs name) = None"
    and m': "sources m' = sources m @ [(ToLower gs name, src)]"
    by (auto simp: Register_def Let_def split: if_splits)
  have lower: "OpenConn m' (ToLower gs name) cfg = Open src cfg"
    using free by (simp add: OpenConn_def m' map_add_def split: sum.splits)
  have other: "\<forall>n. n \<noteq> ToLower gs name \<longrightarrow> OpenConn m' n cfg = OpenConn m n cfg"
    by (auto simp: OpenConn_def m' map_add_def split: option.splits)
  have upper: "OpenConn m' name cfg = Inl (UnknownSource name)"
    if u: "(\<forall>s. ToLower gs (ToLower gs s) = ToLower gs s) \<and> reachable gs m
             \<and> ToLower gs name \<noteq> name"
  proof -
    from u have ne: "ToLower gs name \<noteq> name" by simp
    have "map_of (sources m) name = None"
    proof (cases "map_of (sources m) name")
      case None
      then show ?thesis .
    next
      case (Some s)
      then have "(name, s) \<in> set (sources m)"
        by (rule map_of_SomeD)
      with u obtain n where "name = ToLower gs n"
        using reachable_keys_lowered by blast
      with u have "ToLower gs name = name" by metis
      with ne show ?thesis by simp
    qed
    with ne show ?thesis
      by (simp add: OpenConn_def m' map_add_def)
  qed
  from upper lower other
  show "OpenConn m' (ToLower gs name) cfg = Open src cfg
   \<and> (\<forall>n. n \<noteq> ToLower gs name \<longrightarrow> OpenConn m' n cfg = OpenConn m n cfg)
   \<and> ((\<forall>s. ToLower gs (ToLower gs s) = ToLower gs s) \<and> reachable gs m
        \<and> ToLower gs name \<noteq> name \<longrightarrow>
      OpenConn m' name cfg = Inl (UnknownSource name))"
    by blast
qed

theorem OpenConn_after_Register_witness:
  "Register \<lparr>ToLower = (\<lambda>s. if s = ''CSV'' then ''csv'' else s)\<rparr> ''CSV''
     (Some \<lparr>ds_id = 1, Tables = [''users''],
              Open = (\<lambda>cfg. Inr (Some \<lparr>conn_id = 1, conn_Scanner = True\<rparr>)),
              ds_Scanner = True, ds_Seeker = False\<rparr>)
     newDataSources
   = Inr \<lparr>sources = [(''csv'', \<lparr>ds_id = 1, Tables = [''users''],
                                         Open = (\<lambda>cfg. Inr (Some \<lparr>conn_id = 1, conn_Scanner = True\<rparr>)),
                                         ds_Scanner = True, ds_Seeker = False\<rparr>)],
          tableSources = []\<rparr>
   \<and> OpenConn
       \<lparr>sources = [(''csv'', \<lparr>ds_id = 1, Tables = [''users''],
                                       Open = (\<lambda>cfg. Inr (Some \<lparr>conn_id = 1, conn_Scanner = True\<rparr>)),
                                       ds_Scanner = True, ds_Seeker = False\<rparr>)],
        tableSources = []\<rparr>
       ''CSV'' ''file.csv''
     = Inl (UnknownSource ''CSV'')
   \<and> OpenConn
       \<lparr>sources = [(''csv'', \<lparr>ds_id = 1, Tables = [''users''],
                                       Open = (\<lambda>cfg. Inr (Some \<lparr>conn_id = 1, conn_Scanner = True\<rparr>)),
                                       ds_Scanner = True, ds_Seeker = False\<rparr>)],
        tableSources = []\<rparr>
       ''csv'' ''file.csv''
     = Inr (Some \<lparr>conn_id = 1, conn_Scanner = True\<rparr>)"
proof -
  let ?gs = "\<lparr>ToLower = (\<lambda>s. if s = ''CSV'' then ''csv'' else s)\<rparr>"
  let ?b = "\<lparr>ds_id = 1, Tables = [''users''],
               Open = (\<lambda>cfg. Inr (Some \<lparr>conn_id = 1, conn_Scanner = True\<rparr>)),
               ds_Scanner = True, ds_Seeker = False\<rparr>"
  have idem: "\<forall>s. ToLower ?gs (ToLower ?gs s) = ToLower ?gs s"
    by simp
  have r: "reachable ?gs newDataSources"
    by (rule reachable_new)
  have reg: "Register ?gs ''CSV'' (Some ?b) newDataSources
               = Inr \<lparr>sources = [(''csv'', ?b)], tableSources = []\<rparr>"
    by (simp add: Register_def newDataSources_def)
  have ne: "ToLower ?gs ''CSV'' \<noteq> ''CSV''"
    by simp
  from idem r reg ne
    OpenConn_after_Register
      [where gs = "?gs" and m = newDataSources and name = "''CSV''" and cfg = "''file.csv''"
         and src = "?b" and m' = "\<lparr>sources = [(''csv'', ?b)], tableSources = []\<rparr>"]
  show ?thesis
    by simp
qed

subsection \<open>Resolving a table name\<close>

lemma add_tables_lookup:
  "map_of (fst (add_tables src tbls (ts, lg))) y =
     (case map_of ts y of
        Some s \<Rightarrow> Some s
      | None \<Rightarrow> if y \<in> set tbls then Some src else None)"
  by (induction tbls arbitrary: ts lg) (auto simp: map_add_def split: option.splits)

lemma add_tables_log_grows:
  "set lg \<subseteq> set (snd (add_tables src tbls (ts, lg)))"
proof (induction tbls arbitrary: ts lg)
  case Nil
  then show ?case by simp
next
  case (Cons tbl tbls)
  show ?case
  proof (cases "map_of ts tbl")
    case None
    then show ?thesis using Cons.IH [of lg "ts @ [(tbl, src)]"] by simp
  next
    case (Some s)
    then show ?thesis using Cons.IH [of "lg @ [Warn_table_names_unique tbl]" ts] by auto
  qed
qed

lemma add_tables_warns:
  "map_of ts y \<noteq> None \<Longrightarrow> y \<in> set tbls \<Longrightarrow>
     Warn_table_names_unique y \<in> set (snd (add_tables src tbls (ts, lg)))"
proof (induction tbls arbitrary: ts lg)
  case Nil
  then show ?case by simp
next
  case (Cons tbl tbls)
  show ?case
  proof (cases "tbl = y")
    case True
    with Cons.prems have "add_tables src (tbl # tbls) (ts, lg)
        = add_tables src tbls (ts, lg @ [Warn_table_names_unique y])"
      by auto
    then show ?thesis
      using add_tables_log_grows [of "lg @ [Warn_table_names_unique y]" src tbls ts] by auto
  next
    case False
    with Cons.prems have y: "y \<in> set tbls" by simp
    show ?thesis
    proof (cases "map_of ts tbl")
      case None
      have "map_of (ts @ [(tbl, src)]) y \<noteq> None"
        using Cons.prems(1) by (auto simp: map_add_def split: option.splits)
      then show ?thesis using None Cons.IH [OF _ y, of "ts @ [(tbl, src)]" lg] by simp
    next
      case (Some s)
      then show ?thesis
        using Cons.IH [OF Cons.prems(1) y, of "lg @ [Warn_table_names_unique tbl]"] by simp
    qed
  qed
qed

lemma index_sources_lookup:
  "map_of (fst (index_sources ord (ts, lg))) y =
     (case map_of ts y of
        Some s \<Rightarrow> Some s
      | None \<Rightarrow> map_option snd (find (\<lambda>(n, s). y \<in> set (Tables s)) ord))"
proof (induction ord arbitrary: ts lg)
  case Nil
  then show ?case by (simp split: option.splits)
next
  case (Cons e ord)
  obtain n src where e: "e = (n, src)" by (cases e)
  obtain ts' lg' where step: "add_tables src (Tables src) (ts, lg) = (ts', lg')"
    by (cases "add_tables src (Tables src) (ts, lg)")
  have look: "map_of ts' y =
     (case map_of ts y of Some s \<Rightarrow> Some s
      | None \<Rightarrow> if y \<in> set (Tables src) then Some src else None)"
    using add_tables_lookup [of src "Tables src" ts lg y] step by simp
  show ?case
    using Cons.IH [of ts' lg'] look
    by (simp add: e step split: option.splits)
qed

lemma index_sources_log_grows:
  "set lg \<subseteq> set (snd (index_sources ord (ts, lg)))"
proof (induction ord arbitrary: ts lg)
  case Nil
  then show ?case by simp
next
  case (Cons e ord)
  obtain n src where e: "e = (n, src)" by (cases e)
  obtain ts' lg' where step: "add_tables src (Tables src) (ts, lg) = (ts', lg')"
    by (cases "add_tables src (Tables src) (ts, lg)")
  have "set lg \<subseteq> set lg'"
    using add_tables_log_grows [of lg src "Tables src" ts] step by simp
  then show ?case
    using Cons.IH [of lg' ts'] by (auto simp: e step)
qed

lemma index_sources_warns:
  "map_of ts y \<noteq> None \<Longrightarrow> (n, s) \<in> set ord \<Longrightarrow> y \<in> set (Tables s) \<Longrightarrow>
     Warn_table_names_unique y \<in> set (snd (index_sources ord (ts, lg)))"
proof (induction ord arbitrary: ts lg)
  case Nil
  then show ?case by simp
next
  case (Cons e ord)
  obtain n' src where e: "e = (n', src)" by (cases e)
  obtain ts' lg' where step: "add_tables src (Tables src) (ts, lg) = (ts', lg')"
    by (cases "add_tables src (Tables src) (ts, lg)")
  have kept: "map_of ts' y \<noteq> None"
    using add_tables_lookup [of src "Tables src" ts lg y] step Cons.prems(1)
    by (auto split: option.splits)
  show ?case
  proof (cases "(n, s) = e")
    case True
    then have "Warn_table_names_unique y \<in> set lg'"
      using add_tables_warns [OF Cons.prems(1) Cons.prems(3), of src lg] step e by simp
    then show ?thesis
      using index_sources_log_grows [of lg' ord ts'] by (auto simp: e step)
  next
    case False
    with Cons.prems(2) have "(n, s) \<in> set ord" by auto
    then show ?thesis
      using Cons.IH [OF kept _ Cons.prems(3), of lg'] by (simp add: e step)
  qed
qed

lemma index_sources_second_warns:
  assumes "map_of ts y = None"
    and "find (\<lambda>(n, s). y \<in> set (Tables s)) ord = Some (n1, s1)"
    and "(n2, s2) \<in> set ord" and "y \<in> set (Tables s2)" and "(n2, s2) \<noteq> (n1, s1)"
  shows "Warn_table_names_unique y \<in> set (snd (index_sources ord (ts, lg)))"
  using assms
proof (induction ord arbitrary: ts lg)
  case Nil
  then show ?case by simp
next
  case (Cons e ord)
  obtain n' src where e: "e = (n', src)" by (cases e)
  obtain ts' lg' where step: "add_tables src (Tables src) (ts, lg) = (ts', lg')"
    by (cases "add_tables src (Tables src) (ts, lg)")
  have look: "map_of ts' y = (if y \<in> set (Tables src) then Some src else None)"
    using add_tables_lookup [of src "Tables src" ts lg y] step Cons.prems(1) by simp
  show ?case
  proof (cases "y \<in> set (Tables src)")
    case True
    with Cons.prems(2) e have first: "(n1, s1) = (n', src)" by simp
    with Cons.prems(3,5) e have "(n2, s2) \<in> set ord" by auto
    moreover from True look have "map_of ts' y \<noteq> None" by simp
    ultimately show ?thesis
      using index_sources_warns [of ts' y n2 s2 ord lg'] Cons.prems(4) by (simp add: e step)
  next
    case False
    with Cons.prems(2) e have f: "find (\<lambda>(n, s). y \<in> set (Tables s)) ord = Some (n1, s1)"
      by simp
    from False Cons.prems(3,4) e have "(n2, s2) \<in> set ord" by auto
    moreover from False look have "map_of ts' y = None" by simp
    ultimately show ?thesis
      using Cons.IH [of ts' lg'] f Cons.prems(4,5) by (simp add: e step)
  qed
qed

text \<open>
  C3, as amended. Let \<open>x\<close> match no registered source name, and let there be more than
  one registered backend. If the table index is empty (not built yet) and two different
  registered backends expose the table \<open>x\<close>, then \<open>Get\<close> on \<open>x\<close> succeeds and
  returns, wrapped in a fresh capability record, the backend that the loop over the map of
  sources visits first among those exposing \<open>x\<close> (the first writer wins; \<open>ord\<close> is
  the order of the visit, which Go leaves open, and \<open>find\<close> gives the first backend in
  it that exposes \<open>x\<close>); the warning "table names must be unique across sources" is
  logged for \<open>x\<close>, and the index maps \<open>x\<close> to that backend from then on. If the
  table index is not empty, it is not built again and the registry stays as it is:
  \<open>Get\<close> returns the backend that the index holds for \<open>x\<close>, and nil when it holds
  none, whatever the registered backends expose.
\<close>

theorem Get_table_collision_first_visited:
  "(map_of (sources m) (ToLower gs x) = None \<and> tableSources m = []
    \<and> mset ord = mset (sources m)
    \<and> find (\<lambda>(n, s). x \<in> set (Tables s)) ord = Some (n1, s1)
    \<and> (n2, s2) \<in> set (sources m) \<and> x \<in> set (Tables s2) \<and> (n2, s2) \<noteq> (n1, s1)
    \<longrightarrow>
      fst (Get gs m ord x) = Some (NewFeaturedSource s1)
      \<and> Warn_table_names_unique x \<in> set (snd (snd (Get gs m ord x)))
      \<and> map_of (tableSources (fst (snd (Get gs m ord x)))) x = Some s1
      \<and> sources (fst (snd (Get gs m ord x))) = sources m)
   \<and> (map_of (sources m) (ToLower gs x) = None \<and> length (sources m) \<noteq> 1
       \<and> tableSources m \<noteq> []
    \<longrightarrow>
      fst (Get gs m ord x) = map_option NewFeaturedSource (map_of (tableSources m) x)
      \<and> fst (snd (Get gs m ord x)) = m)"
proof (rule conjI; rule impI)
  assume a: "map_of (sources m) (ToLower gs x) = None \<and> tableSources m = []
   \<and> mset ord = mset (sources m)
   \<and> find (\<lambda>(n, s). x \<in> set (Tables s)) ord = Some (n1, s1)
   \<and> (n2, s2) \<in> set (sources m) \<and> x \<in> set (Tables s2) \<and> (n2, s2) \<noteq> (n1, s1)"
  then have same: "set ord = set (sources m)"
    by (metis mset_eq_setD)
  from a have "find (\<lambda>(n, s). x \<in> set (Tables s)) ord = Some (n1, s1)"
    by simp
  then have "(n1, s1) \<in> set ord"
    by (metis find_Some_iff nth_mem)
  with same have in1: "(n1, s1) \<in> set (sources m)" by simp
  from a have in2: "(n2, s2) \<in> set (sources m)" and ne: "(n2, s2) \<noteq> (n1, s1)" by simp_all
  obtain e1 e2 rest where two: "sources m = e1 # e2 # rest"
  proof (cases "sources m")
    case Nil
    with in1 show ?thesis by simp
  next
    case (Cons e1 tl)
    show ?thesis
    proof (cases tl)
      case Nil
      with Cons in1 in2 ne show ?thesis by auto
    next
      case (Cons e2 rest)
      with \<open>sources m = e1 # tl\<close> that show ?thesis by simp
    qed
  qed
  obtain ts lg where idx: "index_sources ord ([], []) = (ts, lg)"
    by (cases "index_sources ord ([], [])")
  have look: "map_of ts x = Some s1"
    using index_sources_lookup [of ord "[]" "[]" x] idx a by simp
  have warn: "Warn_table_names_unique x \<in> set lg"
    using index_sources_second_warns [of "[]" x ord n1 s1 n2 s2 "[]"] idx a same by simp
  have "Get gs m ord x =
          (Some (NewFeaturedSource s1), m\<lparr>tableSources := ts\<rparr>,
           (if x = [] then [Warn_no_source_type] else []) @ lg)"
    using a two idx look by (cases e1) (simp add: Get_def)
  with look warn
  show "fst (Get gs m ord x) = Some (NewFeaturedSource s1)
     \<and> Warn_table_names_unique x \<in> set (snd (snd (Get gs m ord x)))
     \<and> map_of (tableSources (fst (snd (Get gs m ord x)))) x = Some s1
     \<and> sources (fst (snd (Get gs m ord x))) = sources m"
    by simp
next
  assume b: "map_of (sources m) (ToLower gs x) = None \<and> length (sources m) \<noteq> 1
       \<and> tableSources m \<noteq> []"
  have keep: "m\<lparr>tableSources := tableSources m\<rparr> = m"
    by simp
  show "fst (Get gs m ord x) = map_option NewFeaturedSource (map_of (tableSources m) x)
      \<and> fst (snd (Get gs m ord x)) = m"
  proof (cases "sources m")
    case Nil
    with b keep show ?thesis
      by (cases "map_of (tableSources m) x") (simp_all add: Get_def Let_def)
  next
    case (Cons e1 tl)
    with b obtain e2 rest where "tl = e2 # rest"
      by (cases tl) auto
    with Cons b keep show ?thesis
      by (cases e1; cases "map_of (tableSources m) x") (simp_all add: Get_def Let_def)
  qed
qed

theorem Get_table_collision_first_visited_witness:
  "fst (Get \<lparr>ToLower = (\<lambda>s. if s = ''X'' then ''x'' else s)\<rparr>
          \<lparr>sources =
             [(''a'', \<lparr>ds_id = 1, Tables = [''x''], Open = (\<lambda>cfg. Inr None),
                        ds_Scanner = True, ds_Seeker = False\<rparr>),
              (''b'', \<lparr>ds_id = 2, Tables = [''x''], Open = (\<lambda>cfg. Inr None),
                        ds_Scanner = True, ds_Seeker = False\<rparr>)],
           tableSources =
             []\<rparr>
          [(''b'', \<lparr>ds_id = 2, Tables = [''x''], Open = (\<lambda>cfg. Inr None),
                     ds_Scanner = True, ds_Seeker = False\<rparr>),
           (''a'', \<lparr>ds_id = 1, Tables = [''x''], Open = (\<lambda>cfg. Inr None),
                     ds_Scanner = True, ds_Seeker = False\<rparr>)]
          ''x'')
   = Some (NewFeaturedSource
             \<lparr>ds_id = 2, Tables = [''x''], Open = (\<lambda>cfg. Inr None),
                ds_Scanner = True, ds_Seeker = False\<rparr>)
   \<and> Warn_table_names_unique ''x''
     \<in> set (snd (snd (Get \<lparr>ToLower = (\<lambda>s. if s = ''X'' then ''x'' else s)\<rparr>
          \<lparr>sources =
             [(''a'', \<lparr>ds_id = 1, Tables = [''x''], Open = (\<lambda>cfg. Inr None),
                        ds_Scanner = True, ds_Seeker = False\<rparr>),
              (''b'', \<lparr>ds_id = 2, Tables = [''x''], Open = (\<lambda>cfg. Inr None),
                        ds_Scanner = True, ds_Seeker = False\<rparr>)],
           tableSources =
             []\<rparr>
          [(''b'', \<lparr>ds_id = 2, Tables = [''x''], Open = (\<lambda>cfg. Inr None),
                     ds_Scanner = True, ds_Seeker = False\<rparr>),
           (''a'', \<lparr>ds_id = 1, Tables = [''x''], Open = (\<lambda>cfg. Inr None),
                     ds_Scanner = True, ds_Seeker = False\<rparr>)]
          ''x'')))
   \<and> Get \<lparr>ToLower = (\<lambda>s. if s = ''X'' then ''x'' else s)\<rparr>
       \<lparr>sources =
          [(''a'', \<lparr>ds_id = 1, Tables = [''x''], Open = (\<lambda>cfg. Inr None),
                     ds_Scanner = True, ds_Seeker = False\<rparr>),
           (''b'', \<lparr>ds_id = 2, Tables = [''x''], Open = (\<lambda>cfg. Inr None),
                     ds_Scanner = True, ds_Seeker = False\<rparr>)],
        tableSources =
          [(''y'', \<lparr>ds_id = 3, Tables = [''y''], Open = (\<lambda>cfg. Inr None),
                     ds_Scanner = True, ds_Seeker = False\<rparr>)]\<rparr>
       [(''b'', \<lparr>ds_id = 2, Tables = [''x''], Open = (\<lambda>cfg. Inr None),
                  ds_Scanner = True, ds_Seeker = False\<rparr>),
        (''a'', \<lparr>ds_id = 1, Tables = [''x''], Open = (\<lambda>cfg. Inr None),
                  ds_Scanner = True, ds_Seeker = False\<rparr>)]
       ''x''
     = (None,
        \<lparr>sources =
           [(''a'', \<lparr>ds_id = 1, Tables = [''x''], Open = (\<lambda>cfg. Inr None),
                      ds_Scanner = True, ds_Seeker = False\<rparr>),
            (''b'', \<lparr>ds_id = 2, Tables = [''x''], Open = (\<lambda>cfg. Inr None),
                      ds_Scanner = True, ds_Seeker = False\<rparr>)],
         tableSources =
           [(''y'', \<lparr>ds_id = 3, Tables = [''y''], Open = (\<lambda>cfg. Inr None),
                      ds_Scanner = True, ds_Seeker = False\<rparr>)]\<rparr>,
        [Warn_no_table 2 1, Warn_could_not_find_table ''x''])"
proof -
  let ?gs = "\<lparr>ToLower = (\<lambda>s. if s = ''X'' then ''x'' else s)\<rparr>"
  let ?A = "\<lparr>ds_id = 1, Tables = [''x''], Open = (\<lambda>cfg. Inr None),
               ds_Scanner = True, ds_Seeker = False\<rparr>"
  let ?B = "\<lparr>ds_id = 2, Tables = [''x''], Open = (\<lambda>cfg. Inr None),
               ds_Scanner = True, ds_Seeker = False\<rparr>"
  let ?C = "\<lparr>ds_id = 3, Tables = [''y''], Open = (\<lambda>cfg. Inr None),
               ds_Scanner = True, ds_Seeker = False\<rparr>"
  let ?T = "\<lparr>sources = [(''a'', ?A), (''b'', ?B)], tableSources = [(''y'', ?C)]\<rparr>"
  have fresh: "fst (Get ?gs \<lparr>sources = [(''a'', ?A), (''b'', ?B)], tableSources = []\<rparr>
                      [(''b'', ?B), (''a'', ?A)] ''x'')
                 = Some (NewFeaturedSource ?B)
               \<and> Warn_table_names_unique ''x''
                 \<in> set (snd (snd (Get ?gs
                      \<lparr>sources = [(''a'', ?A), (''b'', ?B)], tableSources = []\<rparr>
                      [(''b'', ?B), (''a'', ?A)] ''x'')))"
    using Get_table_collision_first_visited
      [where gs = "?gs"
         and m = "\<lparr>sources = [(''a'', ?A), (''b'', ?B)], tableSources = []\<rparr>"
         and ord = "[(''b'', ?B), (''a'', ?A)]" and x = "''x''"
         and ?n1.0 = "''b''" and ?s1.0 = "?B" and ?n2.0 = "''a''" and ?s2.0 = "?A"]
    by simp
  have built: "fst (Get ?gs ?T [(''b'', ?B), (''a'', ?A)] ''x'') = None
               \<and> fst (snd (Get ?gs ?T [(''b'', ?B), (''a'', ?A)] ''x'')) = ?T"
    using Get_table_collision_first_visited
      [where gs = "?gs" and m = "?T"
         and ord = "[(''b'', ?B), (''a'', ?A)]" and x = "''x''"
         and ?n1.0 = "''b''" and ?s1.0 = "?B" and ?n2.0 = "''a''" and ?s2.0 = "?A"]
    by simp
  have log: "snd (snd (Get ?gs ?T [(''b'', ?B), (''a'', ?A)] ''x''))
               = [Warn_no_table 2 1, Warn_could_not_find_table ''x'']"
    by (simp add: Get_def)
  from fresh built log show ?thesis
    by (simp add: prod_eq_iff)
qed

text \<open>
  The claim as stated fails in two ways. First, backend 1 is registered as \<open>a\<close>, then
  backend 2 as \<open>b\<close>, both expose the table \<open>x\<close>, and the loop visits them in this
  order: \<open>Get\<close> returns backend 1, the one registered first, and not backend 2, the
  one registered last. Second, backends 3 and 4 (tables \<open>y\<close> and \<open>z\<close>) are registered
  and \<open>y\<close> is resolved, which builds the table index; then backends 1 and 2 are
  registered: the index is not built again, and \<open>Get\<close> on \<open>x\<close> returns nil.
  (\<open>strings.ToLower\<close> leaves these lower-case names as they are.)
\<close>

theorem Get_table_collision_counterexample:
  "reachable \<lparr>ToLower = (\<lambda>s. if s = ''X'' then ''x'' else s)\<rparr>
     \<lparr>sources =
        [(''a'', \<lparr>ds_id = 1, Tables = [''x''], Open = (\<lambda>cfg. Inr None),
                   ds_Scanner = True, ds_Seeker = False\<rparr>),
         (''b'', \<lparr>ds_id = 2, Tables = [''x''], Open = (\<lambda>cfg. Inr None),
                   ds_Scanner = True, ds_Seeker = False\<rparr>)],
      tableSources =
        []\<rparr>
   \<and> Get \<lparr>ToLower = (\<lambda>s. if s = ''X'' then ''x'' else s)\<rparr>
       \<lparr>sources =
          [(''a'', \<lparr>ds_id = 1, Tables = [''x''], Open = (\<lambda>cfg. Inr None),
                     ds_Scanner = True, ds_Seeker = False\<rparr>),
           (''b'', \<lparr>ds_id = 2, Tables = [''x''], Open = (\<lambda>cfg. Inr None),
                     ds_Scanner = True, ds_Seeker = False\<rparr>)],
        tableSources =
          []\<rparr>
       [(''a'', \<lparr>ds_id = 1, Tables = [''x''], Open = (\<lambda>cfg. Inr None),
                  ds_Scanner = True, ds_Seeker = False\<rparr>),
        (''b'', \<lparr>ds_id = 2, Tables = [''x''], Open = (\<lambda>cfg. Inr None),
                  ds_Scanner = True, ds_Seeker = False\<rparr>)]
       ''x''
     = (Some (NewFeaturedSource
                \<lparr>ds_id = 1, Tables = [''x''], Open = (\<lambda>cfg. Inr None),
                   ds_Scanner = True, ds_Seeker = False\<rparr>),
        \<lparr>sources =
           [(''a'', \<lparr>ds_id = 1, Tables = [''x''], Open = (\<lambda>cfg. Inr None),
                      ds_Scanner = True, ds_Seeker = False\<rparr>),
            (''b'', \<lparr>ds_id = 2, Tables = [''x''], Open = (\<lambda>cfg. Inr None),
                      ds_Scanner = True, ds_Seeker = False\<rparr>)],
         tableSources =
           [(''x'', \<lparr>ds_id = 1, Tables = [''x''], Open = (\<lambda>cfg. Inr None),
                      ds_Scanner = True, ds_Seeker = False\<rparr>)]\<rparr>,
        [Warn_table_names_unique ''x''])
   \<and> NewFeaturedSource
       \<lparr>ds_id = 1, Tables = [''x''], Open = (\<lambda>cfg. Inr None),
          ds_Scanner = True, ds_Seeker = False\<rparr>
     \<noteq> NewFeaturedSource
         \<lparr>ds_id = 2, Tables = [''x''], Open = (\<lambda>cfg. Inr None),
            ds_Scanner = True, ds_Seeker = False\<rparr>
   \<and> reachable \<lparr>ToLower = (\<lambda>s. if s = ''X'' then ''x'' else s)\<rparr>
       \<lparr>sources =
          [(''c'', \<lparr>ds_id = 3, Tables = [''y''], Open = (\<lambda>cfg. Inr None),
                     ds_Scanner = True, ds_Seeker = False\<rparr>),
           (''d'', \<lparr>ds_id = 4, Tables = [''z''], Open = (\<lambda>cfg. Inr None),
                     ds_Scanner = True, ds_Seeker = False\<rparr>),
           (''a'', \<lparr>ds_id = 1, Tables = [''x''], Open = (\<lambda>cfg. Inr None),
                     ds_Scanner = True, ds_Seeker = False\<rparr>),
           (''b'', \<lparr>ds_id = 2, Tables = [''x''], Open = (\<lambda>cfg. Inr None),
                     ds_Scanner = True, ds_Seeker = False\<rparr>)],
        tableSources =
          [(''y'', \<lparr>ds_id = 3, Tables = [''y''], Open = (\<lambda>cfg. Inr None),
                     ds_Scanner = True, ds_Seeker = False\<rparr>),
           (''z'', \<lparr>ds_id = 4, Tables = [''z''], Open = (\<lambda>cfg. Inr None),
                     ds_Scanner = True, ds_Seeker = False\<rparr>)]\<rparr>
   \<and> Get \<lparr>ToLower = (\<lambda>s. if s = ''X'' then ''x'' else s)\<rparr>
       \<lparr>sources =
          [(''c'', \<lparr>ds_id = 3, Tables = [''y''], Open = (\<lambda>cfg. Inr None),
                     ds_Scanner = True, ds_Seeker = False\<rparr>),
           (''d'', \<lparr>ds_id = 4, Tables = [''z''], Open = (\<lambda>cfg. Inr None),
                     ds_Scanner = True, ds_Seeker = False\<rparr>),
           (''a'', \<lparr>ds_id = 1, Tables = [''x''], Open = (\<lambda>cfg. Inr None),
                     ds_Scanner = True, ds_Seeker = False\<rparr>),
           (''b'', \<lparr>ds_id = 2, Tables = [''x''], Open = (\<lambda>cfg. Inr None),
                     ds_Scanner = True, ds_Seeker = False\<rparr>)],
        tableSources =
          [(''y'', \<lparr>ds_id = 3, Tables = [''y''], Open = (\<lambda>cfg. Inr None),
                     ds_Scanner = True, ds_Seeker = False\<rparr>),
           (''z'', \<lparr>ds_id = 4, Tables = [''z''], Open = (\<lambda>cfg. Inr None),
                     ds_Scanner = True, ds_Seeker = False\<rparr>)]\<rparr>
       [(''c'', \<lparr>ds_id = 3, Tables = [''y''], Open = (\<lambda>cfg. Inr None),
                  ds_Scanner = True, ds_Seeker = False\<rparr>),
        (''d'', \<lparr>ds_id = 4, Tables = [''z''], Open = (\<lambda>cfg. Inr None),
                  ds_Scanner = True, ds_Seeker = False\<rparr>),
        (''a'', \<lparr>ds_id = 1, Tables = [''x''], Open = (\<lambda>cfg. Inr None),
                  ds_Scanner = True, ds_Seeker = False\<rparr>),
        (''b'', \<lparr>ds_id = 2, Tables = [''x''], Open = (\<lambda>cfg. Inr None),
                  ds_Scanner = True, ds_Seeker = False\<rparr>)]
       ''x''
     = (None,
        \<lparr>sources =
           [(''c'', \<lparr>ds_id = 3, Tables = [''y''], Open = (\<lambda>cfg. Inr None),
                      ds_Scanner = True, ds_Seeker = False\<rparr>),
            (''d'', \<lparr>ds_id = 4, Tables = [''z''], Open = (\<lambda>cfg. Inr None),
                      ds_Scanner = True, ds_Seeker = False\<rparr>),
            (''a'', \<lparr>ds_id = 1, Tables = [''x''], Open = (\<lambda>cfg. Inr None),
                      ds_Scanner = True, ds_Seeker = False\<rparr>),
            (''b'', \<lparr>ds_id = 2, Tables = [''x''], Open = (\<lambda>cfg. Inr None),
                      ds_Scanner = True, ds_Seeker = False\<rparr>)],
         tableSources =
           [(''y'', \<lparr>ds_id = 3, Tables = [''y''], Open = (\<lambda>cfg. Inr None),
                      ds_Scanner = True, ds_Seeker = False\<rparr>),
            (''z'', \<lparr>ds_id = 4, Tables = [''z''], Open = (\<lambda>cfg. Inr None),
                      ds_Scanner = True, ds_Seeker = False\<rparr>)]\<rparr>,
        [Warn_no_table 4 2, Warn_could_not_find_table ''x''])"
proof -
  let ?gs = "\<lparr>ToLower = (\<lambda>s. if s = ''X'' then ''x'' else s)\<rparr>"
  let ?A = "\<lparr>ds_id = 1, Tables = [''x''], Open = (\<lambda>cfg. Inr None),
               ds_Scanner = True, ds_Seeker = False\<rparr>"
  let ?B = "\<lparr>ds_id = 2, Tables = [''x''], Open = (\<lambda>cfg. Inr None),
               ds_Scanner = True, ds_Seeker = False\<rparr>"
  let ?C = "\<lparr>ds_id = 3, Tables = [''y''], Open = (\<lambda>cfg. Inr None),
               ds_Scanner = True, ds_Seeker = False\<rparr>"
  let ?D = "\<lparr>ds_id = 4, Tables = [''z''], Open = (\<lambda>cfg. Inr None),
               ds_Scanner = True, ds_Seeker = False\<rparr>"
  let ?T = "[(''y'', ?C), (''z'', ?D)]"
  have a: "Register ?gs ''a'' (Some ?A) newDataSources
             = Inr \<lparr>sources = [(''a'', ?A)], tableSources = []\<rparr>"
    by (simp add: Register_def newDataSources_def)
  have b: "Register ?gs ''b'' (Some ?B) \<lparr>sources = [(''a'', ?A)], tableSources = []\<rparr>
             = Inr \<lparr>sources = [(''a'', ?A), (''b'', ?B)], tableSources = []\<rparr>"
    by (simp add: Register_def)
  have ab: "reachable ?gs \<lparr>sources = [(''a'', ?A), (''b'', ?B)], tableSources = []\<rparr>"
    using reachable_Register [OF reachable_Register [OF reachable_new a] b] .
  have c: "Register ?gs ''c'' (Some ?C) newDataSources
             = Inr \<lparr>sources = [(''c'', ?C)], tableSources = []\<rparr>"
    by (simp add: Register_def newDataSources_def)
  have d: "Register ?gs ''d'' (Some ?D) \<lparr>sources = [(''c'', ?C)], tableSources = []\<rparr>
             = Inr \<lparr>sources = [(''c'', ?C), (''d'', ?D)], tableSources = []\<rparr>"
    by (simp add: Register_def)
  have y: "Get ?gs \<lparr>sources = [(''c'', ?C), (''d'', ?D)], tableSources = []\<rparr>
               [(''c'', ?C), (''d'', ?D)] ''y''
             = (Some (NewFeaturedSource ?C),
                \<lparr>sources = [(''c'', ?C), (''d'', ?D)], tableSources = ?T\<rparr>, [])"
    by (simp add: Get_def)
  have a': "Register ?gs ''a'' (Some ?A)
               \<lparr>sources = [(''c'', ?C), (''d'', ?D)], tableSources = ?T\<rparr>
             = Inr \<lparr>sources = [(''c'', ?C), (''d'', ?D), (''a'', ?A)], tableSources = ?T\<rparr>"
    by (simp add: Register_def)
  have b': "Register ?gs ''b'' (Some ?B)
               \<lparr>sources = [(''c'', ?C), (''d'', ?D), (''a'', ?A)], tableSources = ?T\<rparr>
             = Inr \<lparr>sources = [(''c'', ?C), (''d'', ?D), (''a'', ?A), (''b'', ?B)],
                    tableSources = ?T\<rparr>"
    by (simp add: Register_def)
  have cdab: "reachable ?gs \<lparr>sources = [(''c'', ?C), (''d'', ?D), (''a'', ?A), (''b'', ?B)],
                              tableSources = ?T\<rparr>"
    using reachable_Register [OF reachable_Register [OF reachable_Get
            [OF reachable_Register [OF reachable_Register [OF reachable_new c] d] y] a'] b'] .
  from ab cdab show ?thesis
    by (simp add: Get_def NewFeaturedSource_def)
qed

end
